theory Spec2Isabelle
  imports Main "HOL-Library.Sublist"
begin

section \<open>The ingestion coordinator of \<open>add_lambda_function.py\<close>\<close>

text \<open>
  The module \<open>src/lambda/s3_postgres_lambda/add_lambda_function.py\<close> holds four functions:
  \<open>delete_from_postgres\<close>, \<open>lambda_handler\<close>, \<open>does_object_exist\<close> and \<open>add_files\<close>.
  Everything they do is a call to an outside service (object storage, the batch service,
  the database, the process environment), so the embedding threads a trace of those calls
  through the functions and takes the answers of the services from a record \<open>world\<close>.
  Python exceptions are values of type \<open>exn\<close>; a function either returns \<open>Inr\<close> a
  result or \<open>Inl\<close> the exception that leaves it.

  Python strings are modelled as \<open>string\<close>: a character stands for a code point below
  256. Floating-point time stamps (\<open>time.time()\<close>) are not modelled; the line that prints
  the elapsed time is kept as a log entry without its number.
\<close>

subsection \<open>Library functions on strings\<close>

text \<open>
  \<open>urllib.parse.unquote\<close>: the string is cut at every \<open>%\<close>; a piece that starts with two
  hexadecimal digits gives the byte they denote followed by the rest of the piece, any other
  piece keeps its \<open>%\<close>. Runs of non-ASCII characters are left alone, and each ASCII run is
  decoded on its own. The decoded bytes are then read as UTF-8 with replacement, which is the
  identity on ASCII bytes; what it yields on other bytes is left to the parameter \<open>codec\<close>.
\<close>

definition is_ascii :: "char \<Rightarrow> bool" where
  "is_ascii c = (of_char c < (128::nat))"

definition hexval :: "char \<Rightarrow> nat option" where
  "hexval c =
     (let n = (of_char c :: nat) in
      if 48 \<le> n \<and> n \<le> 57 then Some (n - 48)
      else if 65 \<le> n \<and> n \<le> 70 then Some (n - 55)
      else if 97 \<le> n \<and> n \<le> 102 then Some (n - 87)
      else None)"

fun split_on :: "char \<Rightarrow> string \<Rightarrow> string list" where
  "split_on sep [] = [[]]"
| "split_on sep (c # cs) =
     (if c = sep then [] # split_on sep cs
      else (case split_on sep cs of [] \<Rightarrow> [[c]] | p # ps \<Rightarrow> (c # p) # ps))"

definition unquote_item :: "string \<Rightarrow> string" where
  "unquote_item item =
     (case item of
        a # b # rest \<Rightarrow>
          (case (hexval a, hexval b) of
             (Some x, Some y) \<Rightarrow> char_of (16 * x + y) # rest
           | _ \<Rightarrow> CHR ''%'' # item)
      | _ \<Rightarrow> CHR ''%'' # item)"

definition unquote_to_bytes :: "string \<Rightarrow> string" where
  "unquote_to_bytes s =
     (case split_on (CHR ''%'') s of
        [] \<Rightarrow> s
      | b # bs \<Rightarrow> b @ concat (map unquote_item bs))"

fun ascii_runs :: "string \<Rightarrow> (bool \<times> string) list" where
  "ascii_runs [] = []"
| "ascii_runs (c # cs) =
     (case ascii_runs cs of
        [] \<Rightarrow> [(is_ascii c, [c])]
      | (a, r) # rest \<Rightarrow>
          (if a = is_ascii c then (a, c # r) # rest
           else (is_ascii c, [c]) # (a, r) # rest))"

definition decode_utf8 :: "(string \<Rightarrow> string) \<Rightarrow> string \<Rightarrow> string" where
  "decode_utf8 codec bs = (if list_all is_ascii bs then bs else codec bs)"

definition unquote :: "(string \<Rightarrow> string) \<Rightarrow> string \<Rightarrow> string" where
  "unquote codec s =
     (if CHR ''%'' \<in> set s
      then concat (map (\<lambda>(a, r). if a then decode_utf8 codec (unquote_to_bytes r) else r)
                       (ascii_runs s))
      else s)"

text \<open>
  \<open>str.replace(old, new)\<close>: the occurrences of \<open>old\<close> are replaced from left to right
  and do not overlap. With an empty \<open>old\<close>, Python puts \<open>new\<close> before every character and
  at the end.
\<close>

fun replace_from :: "string \<Rightarrow> string \<Rightarrow> string \<Rightarrow> string" where
  "replace_from old new [] = []"
| "replace_from old new (c # cs) =
     (if prefix old (c # cs)
      then new @ replace_from old new (drop (length old - 1) cs)
      else c # replace_from old new cs)"

definition replace :: "string \<Rightarrow> string \<Rightarrow> string \<Rightarrow> string" where
  "replace old new s =
     (if old = [] then new @ concat (map (\<lambda>c. c # new) s) else replace_from old new s)"

text \<open>\<open>os.path.basename\<close>: what follows the last \<open>/\<close>.\<close>

definition basename :: "string \<Rightarrow> string" where
  "basename p = rev (takeWhile (\<lambda>c. c \<noteq> CHR ''/'') (rev p))"

text \<open>
  \<open>json.dumps\<close> of a string: the string between double quotes, with the double quote, the
  backslash and every character outside \<open>' '\<close>..\<open>'~'\<close> escaped.
\<close>

definition hexdigit :: "nat \<Rightarrow> char" where
  "hexdigit n = (if n < 10 then char_of (48 + n) else char_of (87 + n))"

definition json_escape :: "char \<Rightarrow> string" where
  "json_escape c =
     (let n = (of_char c :: nat) in
      if c = CHR 0x22 then [CHR 0x5C, CHR 0x22]
      else if c = CHR 0x5C then [CHR 0x5C, CHR 0x5C]
      else if c = CHR 0x0A then [CHR 0x5C, CHR ''n'']
      else if c = CHR 0x0D then [CHR 0x5C, CHR ''r'']
      else if c = CHR 0x09 then [CHR 0x5C, CHR ''t'']
      else if c = CHR 0x08 then [CHR 0x5C, CHR ''b'']
      else if c = CHR 0x0C then [CHR 0x5C, CHR ''f'']
      else if n < 32 \<or> 126 < n
        then [CHR 0x5C, CHR ''u'', CHR ''0'', CHR ''0'', hexdigit (n div 16), hexdigit (n mod 16)]
      else [c])"

definition json_dumps :: "string \<Rightarrow> string" where
  "json_dumps s = CHR 0x22 # concat (map json_escape s) @ [CHR 0x22]"

subsection \<open>Data, exceptions and effects\<close>

text \<open>
  The exceptions that occur: \<open>KeyError\<close> with the missing key, botocore's \<open>ClientError\<close>
  with its \<open>response['Error']['Code']\<close>, \<open>UnboundLocalError\<close> with the name of the
  variable, and \<open>Error\<close> for any other subclass of \<open>Exception\<close> a service raises. All of
  them are subclasses of \<open>Exception\<close>, so \<open>except Exception\<close> catches each.
\<close>

datatype exn =
    KeyError string
  | ClientError string
  | UnboundLocalError string
  | Error string

text \<open>
  The event, as far as the handler reads it: \<open>event.get('RequestType')\<close>, and
  \<open>event['Records']\<close> when the key is there, each record with its
  \<open>['s3']['bucket']['name']\<close> and \<open>['s3']['object']['key']\<close>. Records that lack these
  fields are outside the type.
\<close>

record s3_record =
  s3_bucket_name :: string
  s3_object_key :: string

record event =
  RequestType :: "string option"
  Records :: "s3_record list option"

record response =
  statusCode :: int
  body :: string

text \<open>An entry of \<open>response['Contents']\<close> of \<open>list_objects_v2\<close>.\<close>

record listed =
  Key :: string
  Size :: int

text \<open>
  The arguments of \<open>batch_client.submit_job\<close> (the processing job request; \<open>environment\<close>
  is \<open>containerOverrides['environment']\<close> as name and value pairs) and the arguments of
  \<open>delete_from_postgres\<close> (the deletion request).
\<close>

record job_request =
  jobName :: string
  jobQueue :: string
  jobDefinition :: string
  environment :: "(string \<times> string) list"

record deletion_request =
  del_db_name :: string
  del_user :: string
  del_password :: string
  del_host :: string
  del_port :: string
  del_table_name :: string
  del_filename :: string

text \<open>
  The lines the module prints, one constructor for each \<open>print\<close> in the order of the
  source, with the values the line shows.
\<close>

datatype log_entry =
    Log_stack_deleted
  | Log_s3_event
  | Log_already_exists string
  | Log_error_deleting exn
  | Log_custom_resource
  | Log_objects "listed list"
  | Log_skipping_folder string
  | Log_no_objects
  | Log_executing_query string string
  | Log_records_deleted int
  | Log_error_while_deleting exn
  | Log_process_took

text \<open>
  What an invocation does to the outside, in the order it does it. \<open>Submit_job\<close> is a call
  of \<open>batch_client.submit_job\<close>, \<open>Call_delete_from_postgres\<close> a call of
  \<open>delete_from_postgres\<close> with its arguments; the \<open>Pg_\<close> effects are the calls of the
  database driver inside it.
\<close>

datatype effect =
    Print log_entry
  | Head_object string string
  | List_objects_v2 string string
  | Submit_job job_request
  | Call_delete_from_postgres deletion_request
  | Pg_connect string string string string string
  | Pg_cursor
  | Pg_execute string string
  | Pg_commit
  | Pg_cursor_close
  | Pg_connection_close

text \<open>
  The answers of the outside world. \<open>environ\<close> is \<open>os.environ\<close>, \<open>app_script\<close> the text
  read from \<open>s3_postgres_ingest.py\<close> when the module is loaded, \<open>utf8_codec\<close> the UTF-8
  decoding of non-ASCII bytes. Every service answers with a value or raises. The batch
  service and the UUID source are asked several times in one invocation, so their answers
  depend on the number of jobs submitted before.
\<close>

record world =
  environ :: "string \<rightharpoonup> string"
  app_script :: string
  utf8_codec :: "string \<Rightarrow> string"
  head_object :: "string \<Rightarrow> string \<Rightarrow> exn + unit"
  list_objects_v2 :: "string \<Rightarrow> string \<Rightarrow> exn + listed list option"
  uuid4 :: "nat \<Rightarrow> string"
  submit_job :: "nat \<Rightarrow> job_request \<Rightarrow> exn + string"
  pg_connect :: "string \<Rightarrow> string \<Rightarrow> string \<Rightarrow> string \<Rightarrow> string \<Rightarrow> exn + unit"
  pg_cursor :: "exn + unit"
  pg_execute :: "string \<Rightarrow> string \<Rightarrow> exn + unit"
  pg_commit :: "exn + unit"
  pg_rowcount :: int
  pg_cursor_close :: "exn + unit"
  pg_connection_close :: "exn + unit"

text \<open>
  A computation takes the trace so far and gives its result, or the exception that ended
  it, with the trace extended.
\<close>

type_synonym 'a io = "effect list \<Rightarrow> (exn + 'a) \<times> effect list"

definition return :: "'a \<Rightarrow> 'a io" where
  "return x tr = (Inr x, tr)"

definition raise :: "exn \<Rightarrow> 'a io" where
  "raise e tr = (Inl e, tr)"

definition bind :: "'a io \<Rightarrow> ('a \<Rightarrow> 'b io) \<Rightarrow> 'b io" where
  "bind m f tr = (case m tr of (Inl e, tr') \<Rightarrow> (Inl e, tr') | (Inr x, tr') \<Rightarrow> f x tr')"

definition emit :: "effect \<Rightarrow> unit io" where
  "emit eff tr = (Inr (), tr @ [eff])"

definition call :: "effect \<Rightarrow> exn + 'a \<Rightarrow> 'a io" where
  "call eff answer tr = (answer, tr @ [eff])"

text \<open>The job requests, the deletion requests and the probes of a trace.\<close>

fun submissions :: "effect list \<Rightarrow> job_request list" where
  "submissions [] = []"
| "submissions (Submit_job r # es) = r # submissions es"
| "submissions (_ # es) = submissions es"

fun deletions :: "effect list \<Rightarrow> deletion_request list" where
  "deletions [] = []"
| "deletions (Call_delete_from_postgres d # es) = d # deletions es"
| "deletions (_ # es) = deletions es"

fun probes :: "effect list \<Rightarrow> (string \<times> string) list" where
  "probes [] = []"
| "probes (Head_object b k # es) = (b, k) # probes es"
| "probes (_ # es) = probes es"

definition os_environ :: "world \<Rightarrow> string \<Rightarrow> string io" where
  "os_environ w k = (case environ w k of None \<Rightarrow> raise (KeyError k) | Some v \<Rightarrow> return v)"

subsection \<open>\<open>delete_from_postgres\<close>\<close>

text \<open>
  The \<open>try\<close> block, with what it leaves behind: the exception that stopped it (if any),
  whether \<open>connection\<close> holds a connection (it starts as \<open>None\<close>) and whether the local
  variable \<open>cursor\<close> has been assigned (it has no initial value).
\<close>

definition delete_try ::
  "world \<Rightarrow> string \<Rightarrow> string \<Rightarrow> string \<Rightarrow> string \<Rightarrow> string \<Rightarrow> string \<Rightarrow> string \<Rightarrow>
   effect list \<Rightarrow> (exn option \<times> bool \<times> bool) \<times> effect list" where
  "delete_try w db_name user password host port table_name filename tr =
     (let tr1 = tr @ [Pg_connect db_name user password host port] in
      case pg_connect w db_name user password host port of
        Inl e \<Rightarrow> ((Some e, False, False), tr1)
      | Inr _ \<Rightarrow>
          (let tr2 = tr1 @ [Pg_cursor] in
           case pg_cursor w of
             Inl e \<Rightarrow> ((Some e, True, False), tr2)
           | Inr _ \<Rightarrow>
               (let delete_query = ''DELETE FROM '' @ table_name @ '' WHERE filename = %s'';
                    tr3 = tr2 @ [Print (Log_executing_query delete_query filename),
                                 Pg_execute delete_query filename] in
                case pg_execute w delete_query filename of
                  Inl e \<Rightarrow> ((Some e, True, True), tr3)
                | Inr _ \<Rightarrow>
                    (let tr4 = tr3 @ [Pg_commit] in
                     case pg_commit w of
                       Inl e \<Rightarrow> ((Some e, True, True), tr4)
                     | Inr _ \<Rightarrow>
                         ((None, True, True),
                          tr4 @ [Print (Log_records_deleted (pg_rowcount w))])))))"

text \<open>
  The \<open>finally\<close> block: reading \<open>cursor\<close> before it was assigned raises
  \<open>UnboundLocalError\<close>; an exception of \<open>cursor.close()\<close> skips \<open>connection.close()\<close>.
\<close>

definition delete_finally :: "world \<Rightarrow> bool \<Rightarrow> bool \<Rightarrow> unit io" where
  "delete_finally w connection cursor =
     (if \<not> cursor then raise (UnboundLocalError ''cursor'')
      else bind (call Pg_cursor_close (pg_cursor_close w)) (\<lambda>_.
           if connection then call Pg_connection_close (pg_connection_close w)
           else return ()))"

definition delete_from_postgres ::
  "world \<Rightarrow> string \<Rightarrow> string \<Rightarrow> string \<Rightarrow> string \<Rightarrow> string \<Rightarrow> string \<Rightarrow> string \<Rightarrow> unit io" where
  "delete_from_postgres w db_name user password host port table_name filename tr =
     (let request = \<lparr>del_db_name = db_name, del_user = user, del_password = password,
                     del_host = host, del_port = port, del_table_name = table_name,
                     del_filename = filename\<rparr>;
          ((raised, connection, cursor), tr1) =
             delete_try w db_name user password host port table_name filename
               (tr @ [Call_delete_from_postgres request]);
          tr2 = (case raised of
                   None \<Rightarrow> tr1
                 | Some error \<Rightarrow> tr1 @ [Print (Log_error_while_deleting error)])
      in bind (delete_finally w connection cursor) (\<lambda>_. emit (Print Log_process_took)) tr2)"

subsection \<open>\<open>does_object_exist\<close> and \<open>add_files\<close>\<close>

definition does_object_exist :: "world \<Rightarrow> string \<Rightarrow> string \<Rightarrow> bool io" where
  "does_object_exist w bucket_name document_key tr =
     (let tr1 = tr @ [Head_object bucket_name document_key] in
      case head_object w bucket_name document_key of
        Inr _ \<Rightarrow> (Inr True, tr1)
      | Inl e \<Rightarrow>
          (case e of
             ClientError code \<Rightarrow> if code = ''404'' then (Inr False, tr1) else (Inl e, tr1)
           | _ \<Rightarrow> (Inl e, tr1)))"

definition batch_submit_job :: "world \<Rightarrow> job_request \<Rightarrow> string io" where
  "batch_submit_job w request tr =
     (submit_job w (length (submissions tr)) request, tr @ [Submit_job request])"

definition uuid_uuid4 :: "world \<Rightarrow> string io" where
  "uuid_uuid4 w tr = (Inr (uuid4 w (length (submissions tr))), tr)"

definition add_files :: "world \<Rightarrow> string \<Rightarrow> response io" where
  "add_files w s3_url =
     bind (os_environ w ''MY_AWS_ACCESS_KEY_ID'') (\<lambda>aws_access_key.
     bind (os_environ w ''MY_AWS_SECRET_ACCESS_KEY'') (\<lambda>aws_secret_key.
     bind (os_environ w ''POSTGRES_DB_NAME'') (\<lambda>db_name.
     bind (os_environ w ''POSTGRES_USER'') (\<lambda>user.
     bind (os_environ w ''POSTGRES_PASSWORD'') (\<lambda>password.
     bind (os_environ w ''POSTGRES_HOST'') (\<lambda>host.
     bind (os_environ w ''POSTGRES_PORT'') (\<lambda>port.
     bind (os_environ w ''POSTGRES_TABLE_NAME'') (\<lambda>table_name.
     bind (os_environ w ''EMBEDDING_PROVIDER'') (\<lambda>embedding_provider.
     bind (os_environ w ''EMBEDDING_MODEL_NAME'') (\<lambda>embedding_model_name.
     bind (os_environ w ''EMBEDDING_PROVIDER_API_KEY'') (\<lambda>embedding_provider_api_key.
     bind (os_environ w ''CHUNKING_STRATEGY'') (\<lambda>chunking_strategy.
     bind (os_environ w ''CHUNKING_MAX_CHARACTERS'') (\<lambda>chunking_max_characters.
     bind (uuid_uuid4 w) (\<lambda>uuid.
     bind (os_environ w ''JOB_QUEUE'') (\<lambda>job_queue.
     bind (os_environ w ''JOB_DEFINITION'') (\<lambda>job_definition.
     bind (batch_submit_job w
            \<lparr>jobName = ''BatchJob_'' @ uuid,
             jobQueue = job_queue,
             jobDefinition = job_definition,
             environment =
               [(''AWS_S3_URL'', s3_url),
                (''AWS_ACCESS_KEY_ID'', aws_access_key),
                (''AWS_SECRET_ACCESS_KEY'', aws_secret_key),
                (''POSTGRES_DB_NAME'', db_name),
                (''POSTGRES_USER'', user),
                (''POSTGRES_PASSWORD'', password),
                (''POSTGRES_HOST'', host),
                (''POSTGRES_PORT'', port),
                (''POSTGRES_TABLE_NAME'', table_name),
                (''EMBEDDING_PROVIDER'', embedding_provider),
                (''EMBEDDING_MODEL_NAME'', embedding_model_name),
                (''EMBEDDING_PROVIDER_API_KEY'', embedding_provider_api_key),
                (''CHUNKING_STRATEGY'', chunking_strategy),
                (''CHUNKING_MAX_CHARACTERS'', chunking_max_characters),
                (''LOCAL_FILE_DOWNLOAD_DIR'', ''/tmp/''),
                (''APP_SCRIPT'', app_script w)]\<rparr>) (\<lambda>job_id.
     return \<lparr>statusCode = 200,
             body = json_dumps (''Started Batch Job: '' @ job_id)\<rparr>)))))))))))))))))"

subsection \<open>\<open>lambda_handler\<close>\<close>

definition decode_key :: "world \<Rightarrow> string \<Rightarrow> string" where
  "decode_key w document_key =
     replace ''%20'' '' '' (replace ''+'' '' '' (unquote (utf8_codec w) document_key))"

definition s3_url_of :: "string \<Rightarrow> string \<Rightarrow> string" where
  "s3_url_of bucket_name key = ''s3://'' @ bucket_name @ ''/'' @ key"

text \<open>
  The branch for an S3 event (a non-empty \<open>Records\<close>); only the first record is read. The
  \<open>try\<close> around \<open>delete_from_postgres\<close> catches whatever it raises.
\<close>

definition handle_s3_event :: "world \<Rightarrow> s3_record \<Rightarrow> response io" where
  "handle_s3_event w record =
     bind (emit (Print Log_s3_event)) (\<lambda>_.
     let bucket_name = s3_bucket_name record;
         document_key = s3_object_key record;
         decoded_document_with_spaces = decode_key w document_key;
         s3_url = s3_url_of bucket_name decoded_document_with_spaces
     in
     bind (does_object_exist w bucket_name decoded_document_with_spaces) (\<lambda>exists.
     bind (if exists then
             bind (emit (Print (Log_already_exists decoded_document_with_spaces))) (\<lambda>_.
             bind (os_environ w ''POSTGRES_DB_NAME'') (\<lambda>db_name.
             bind (os_environ w ''POSTGRES_USER'') (\<lambda>user.
             bind (os_environ w ''POSTGRES_PASSWORD'') (\<lambda>password.
             bind (os_environ w ''POSTGRES_HOST'') (\<lambda>host.
             bind (os_environ w ''POSTGRES_PORT'') (\<lambda>port.
             bind (os_environ w ''POSTGRES_TABLE_NAME'') (\<lambda>table_name.
             (\<lambda>tr. case delete_from_postgres w db_name user password host port table_name
                              (basename decoded_document_with_spaces) tr of
                     (Inl e, tr') \<Rightarrow> emit (Print (Log_error_deleting e)) tr'
                   | (Inr u, tr') \<Rightarrow> (Inr u, tr')))))))))
           else return ()) (\<lambda>_.
     add_files w s3_url)))"

text \<open>The loop over \<open>response['Contents']\<close>: the result of \<open>add_files\<close> is dropped, an
  exception of it ends the loop.\<close>

fun process_contents :: "world \<Rightarrow> string \<Rightarrow> listed list \<Rightarrow> unit io" where
  "process_contents w bucket_name [] = return ()"
| "process_contents w bucket_name (item # items) =
     (let document_key = Key item;
          s3_url = s3_url_of bucket_name document_key
      in if Size item = 0
         then bind (emit (Print (Log_skipping_folder document_key))) (\<lambda>_.
              process_contents w bucket_name items)
         else bind (add_files w s3_url) (\<lambda>_. process_contents w bucket_name items))"

definition handle_custom_resource :: "world \<Rightarrow> response io" where
  "handle_custom_resource w =
     bind (emit (Print Log_custom_resource)) (\<lambda>_.
     bind (os_environ w ''S3_BUCKET_NAME'') (\<lambda>bucket_name.
     let prefix = (case environ w ''S3_NOTIFICATION_PREFIX'' of None \<Rightarrow> '''' | Some p \<Rightarrow> p) in
     bind (call (List_objects_v2 bucket_name prefix) (list_objects_v2 w bucket_name prefix))
       (\<lambda>response.
     bind (case response of
             Some contents \<Rightarrow>
               bind (emit (Print (Log_objects contents))) (\<lambda>_.
               process_contents w bucket_name contents)
           | None \<Rightarrow> emit (Print Log_no_objects)) (\<lambda>_.
     return \<lparr>statusCode = 200, body = json_dumps ''Processed existing items.''\<rparr>))))"

definition lambda_handler :: "world \<Rightarrow> event \<Rightarrow> response io" where
  "lambda_handler w event =
     (if RequestType event = Some ''Delete''
      then bind (emit (Print Log_stack_deleted)) (\<lambda>_.
           return \<lparr>statusCode = 200, body = json_dumps ''Delete event - no action taken.''\<rparr>)
      else (case Records event of
              None \<Rightarrow> handle_custom_resource w
            | Some [] \<Rightarrow> handle_custom_resource w
            | Some (record # _) \<Rightarrow> handle_s3_event w record))"

subsection \<open>Vocabulary of the statements\<close>

text \<open>
  The variables \<open>add_files\<close> reads, in the order it reads them, and the six the S3 branch
  reads before it calls \<open>delete_from_postgres\<close>.
\<close>

definition job_vars :: "string list" where
  "job_vars =
     [''MY_AWS_ACCESS_KEY_ID'', ''MY_AWS_SECRET_ACCESS_KEY'', ''POSTGRES_DB_NAME'',
      ''POSTGRES_USER'', ''POSTGRES_PASSWORD'', ''POSTGRES_HOST'', ''POSTGRES_PORT'',
      ''POSTGRES_TABLE_NAME'', ''EMBEDDING_PROVIDER'', ''EMBEDDING_MODEL_NAME'',
      ''EMBEDDING_PROVIDER_API_KEY'', ''CHUNKING_STRATEGY'', ''CHUNKING_MAX_CHARACTERS'',
      ''JOB_QUEUE'', ''JOB_DEFINITION'']"

definition pg_vars :: "string list" where
  "pg_vars =
     [''POSTGRES_DB_NAME'', ''POSTGRES_USER'', ''POSTGRES_PASSWORD'', ''POSTGRES_HOST'',
      ''POSTGRES_PORT'', ''POSTGRES_TABLE_NAME'']"

definition missing :: "world \<Rightarrow> string list \<Rightarrow> string option" where
  "missing w vars = find (\<lambda>v. environ w v = None) vars"

definition getenv :: "world \<Rightarrow> string \<Rightarrow> string" where
  "getenv w k = (case environ w k of None \<Rightarrow> [] | Some v \<Rightarrow> v)"

text \<open>The request \<open>add_files\<close> assembles for a URL when \<open>n\<close> jobs were submitted before.\<close>

definition job_request_of :: "world \<Rightarrow> string \<Rightarrow> nat \<Rightarrow> job_request" where
  "job_request_of w s3_url n =
     \<lparr>jobName = ''BatchJob_'' @ uuid4 w n,
      jobQueue = getenv w ''JOB_QUEUE'',
      jobDefinition = getenv w ''JOB_DEFINITION'',
      environment =
        [(''AWS_S3_URL'', s3_url),
         (''AWS_ACCESS_KEY_ID'', getenv w ''MY_AWS_ACCESS_KEY_ID''),
         (''AWS_SECRET_ACCESS_KEY'', getenv w ''MY_AWS_SECRET_ACCESS_KEY''),
         (''POSTGRES_DB_NAME'', getenv w ''POSTGRES_DB_NAME''),
         (''POSTGRES_USER'', getenv w ''POSTGRES_USER''),
         (''POSTGRES_PASSWORD'', getenv w ''POSTGRES_PASSWORD''),
         (''POSTGRES_HOST'', getenv w ''POSTGRES_HOST''),
         (''POSTGRES_PORT'', getenv w ''POSTGRES_PORT''),
         (''POSTGRES_TABLE_NAME'', getenv w ''POSTGRES_TABLE_NAME''),
         (''EMBEDDING_PROVIDER'', getenv w ''EMBEDDING_PROVIDER''),
         (''EMBEDDING_MODEL_NAME'', getenv w ''EMBEDDING_MODEL_NAME''),
         (''EMBEDDING_PROVIDER_API_KEY'', getenv w ''EMBEDDING_PROVIDER_API_KEY''),
         (''CHUNKING_STRATEGY'', getenv w ''CHUNKING_STRATEGY''),
         (''CHUNKING_MAX_CHARACTERS'', getenv w ''CHUNKING_MAX_CHARACTERS''),
         (''LOCAL_FILE_DOWNLOAD_DIR'', ''/tmp/''),
         (''APP_SCRIPT'', app_script w)]\<rparr>"

definition deletion_request_of :: "world \<Rightarrow> string \<Rightarrow> deletion_request" where
  "deletion_request_of w name =
     \<lparr>del_db_name = getenv w ''POSTGRES_DB_NAME'',
      del_user = getenv w ''POSTGRES_USER'',
      del_password = getenv w ''POSTGRES_PASSWORD'',
      del_host = getenv w ''POSTGRES_HOST'',
      del_port = getenv w ''POSTGRES_PORT'',
      del_table_name = getenv w ''POSTGRES_TABLE_NAME'',
      del_filename = name\<rparr>"

definition input_url :: "job_request \<Rightarrow> string option" where
  "input_url q = map_of (environment q) ''AWS_S3_URL''"

text \<open>The deletion requests and job requests of a trace, in the order they were issued.\<close>

fun requests :: "effect list \<Rightarrow> effect list" where
  "requests [] = []"
| "requests (Submit_job q # es) = Submit_job q # requests es"
| "requests (Call_delete_from_postgres d # es) = Call_delete_from_postgres d # requests es"
| "requests (_ # es) = requests es"

definition started_body :: "string \<Rightarrow> response" where
  "started_body job_id =
     \<lparr>statusCode = 200, body = json_dumps (''Started Batch Job: '' @ job_id)\<rparr>"

text \<open>A character that \<open>json.dumps\<close> copies unchanged.\<close>

definition json_plain :: "char \<Rightarrow> bool" where
  "json_plain c =
     (c \<noteq> CHR 0x22 \<and> c \<noteq> CHR 0x5C \<and> 32 \<le> (of_char c :: nat) \<and> (of_char c :: nat) \<le> 126)"

subsection \<open>Sample worlds and events\<close>

definition sample_environ :: "string \<rightharpoonup> string" where
  "sample_environ =
     map_of
       [(''MY_AWS_ACCESS_KEY_ID'', ''AKIA''), (''MY_AWS_SECRET_ACCESS_KEY'', ''secret''),
        (''POSTGRES_DB_NAME'', ''vecs''), (''POSTGRES_USER'', ''ingest''),
        (''POSTGRES_PASSWORD'', ''pw''), (''POSTGRES_HOST'', ''db.local''),
        (''POSTGRES_PORT'', ''5432''), (''POSTGRES_TABLE_NAME'', ''elements''),
        (''EMBEDDING_PROVIDER'', ''openai''), (''EMBEDDING_MODEL_NAME'', ''small''),
        (''EMBEDDING_PROVIDER_API_KEY'', ''key''), (''CHUNKING_STRATEGY'', ''basic''),
        (''CHUNKING_MAX_CHARACTERS'', ''1000''), (''JOB_QUEUE'', ''queue''),
        (''JOB_DEFINITION'', ''definition''), (''S3_BUCKET_NAME'', ''docs''),
        (''S3_NOTIFICATION_PREFIX'', ''in/'')]"

definition sample_world :: world where
  "sample_world =
     \<lparr>environ = sample_environ,
      app_script = ''run()'',
      utf8_codec = (\<lambda>bs. bs),
      head_object = (\<lambda>b k. Inr ()),
      list_objects_v2 =
        (\<lambda>b p. Inr (Some [\<lparr>Key = ''in/x.pdf'', Size = 10\<rparr>, \<lparr>Key = ''in/'', Size = 0\<rparr>])),
      uuid4 = (\<lambda>n. ''1f0e''),
      submit_job = (\<lambda>n q. Inr ''job-7''),
      pg_connect = (\<lambda>d u p h q. Inr ()),
      pg_cursor = Inr (),
      pg_execute = (\<lambda>q f. Inr ()),
      pg_commit = Inr (),
      pg_rowcount = 1,
      pg_cursor_close = Inr (),
      pg_connection_close = Inr ()\<rparr>"

definition s3_event :: "string \<Rightarrow> string \<Rightarrow> event" where
  "s3_event bucket key =
     \<lparr>RequestType = None,
      Records = Some [\<lparr>s3_bucket_name = bucket, s3_object_key = key\<rparr>]\<rparr>"

definition teardown_event :: event where
  "teardown_event = \<lparr>RequestType = Some ''Delete'', Records = None\<rparr>"

definition bulk_event :: event where
  "bulk_event = \<lparr>RequestType = Some ''Create'', Records = None\<rparr>"

definition not_found_world :: world where
  "not_found_world = sample_world\<lparr>head_object := (\<lambda>b k. Inl (ClientError ''404''))\<rparr>"

definition forbidden_world :: world where
  "forbidden_world = sample_world\<lparr>head_object := (\<lambda>b k. Inl (ClientError ''403''))\<rparr>"

definition db_down_world :: world where
  "db_down_world =
     sample_world\<lparr>pg_connect := (\<lambda>d u p h q. Inl (Error ''connection refused''))\<rparr>"

definition cursor_fails_world :: world where
  "cursor_fails_world = sample_world\<lparr>pg_cursor := Inl (Error ''out of memory'')\<rparr>"

definition batch_down_world :: world where
  "batch_down_world = sample_world\<lparr>submit_job := (\<lambda>n q. Inl (Error ''batch unavailable''))\<rparr>"

definition unconfigured_world :: world where
  "unconfigured_world = sample_world\<lparr>environ := sample_environ(''JOB_QUEUE'' := None)\<rparr>"

definition sample_key :: string where
  "sample_key = ''in/my+file%2520v2.pdf''"

definition empty_bucket_world :: world where
  "empty_bucket_world = sample_world\<lparr>list_objects_v2 := (\<lambda>b p. Inr None)\<rparr>"

definition docs_key :: string where
  "docs_key = ''a%2Bb.pdf''"

section \<open>Properties\<close>

subsection \<open>Traces and the environment\<close>

lemma submissions_append: "submissions (xs @ ys) = submissions xs @ submissions ys"
  by (induction xs rule: submissions.induct) simp_all

lemma deletions_append: "deletions (xs @ ys) = deletions xs @ deletions ys"
  by (induction xs rule: deletions.induct) simp_all

lemma probes_append: "probes (xs @ ys) = probes xs @ probes ys"
  by (induction xs rule: probes.induct) simp_all

lemma requests_append: "requests (xs @ ys) = requests xs @ requests ys"
  by (induction xs rule: requests.induct) simp_all

lemma missing_None_iff: "missing w vars = None \<longleftrightarrow> list_all (\<lambda>v. environ w v \<noteq> None) vars"
  by (auto simp: missing_def find_None_iff list_all_iff)

lemma os_environ_Some: "environ w k = Some v \<Longrightarrow> os_environ w k tr = (Inr v, tr)"
  by (simp add: os_environ_def return_def)

lemma os_environ_None: "environ w k = None \<Longrightarrow> os_environ w k tr = (Inl (KeyError k), tr)"
  by (simp add: os_environ_def raise_def)

lemma add_files_missing:
  assumes "missing w job_vars = Some v"
  shows "add_files w s3_url tr = (Inl (KeyError v), tr)"
  using assms
  by (auto simp: missing_def job_vars_def add_files_def bind_def os_environ_def raise_def
      return_def uuid_uuid4_def split: if_splits)

lemma add_files_configured:
  assumes "missing w job_vars = None"
  shows "add_files w s3_url tr =
           (case submit_job w (length (submissions tr))
                   (job_request_of w s3_url (length (submissions tr))) of
              Inl e \<Rightarrow> Inl e
            | Inr job_id \<Rightarrow> Inr (started_body job_id),
            tr @ [Submit_job (job_request_of w s3_url (length (submissions tr)))])"
  using assms
  by (auto simp: missing_None_iff job_vars_def add_files_def bind_def os_environ_def raise_def
      return_def uuid_uuid4_def batch_submit_job_def job_request_of_def getenv_def
      started_body_def split: sum.splits)


lemma submissions_requests: "submissions (requests tr) = submissions tr"
  by (induction tr rule: requests.induct) simp_all

lemma deletions_requests: "deletions (requests tr) = deletions tr"
  by (induction tr rule: requests.induct) simp_all

lemma quiet_submissions: "requests tr = [] \<Longrightarrow> submissions tr = []"
  using submissions_requests [of tr] by simp

lemma quiet_deletions: "requests tr = [] \<Longrightarrow> deletions tr = []"
  using deletions_requests [of tr] by simp

subsection \<open>Replacing \<open>+\<close> and \<open>%20\<close>\<close>

lemma replace_from_single_absent:
  "c \<notin> set new \<Longrightarrow> c \<notin> set (replace_from [c] new s)"
  by (induction "[c]" new s rule: replace_from.induct) auto

lemma set_replace_from: "set (replace_from old new s) \<subseteq> set s \<union> set new"
proof (induction old new s rule: replace_from.induct)
  case (1 old new)
  then show ?case by simp
next
  case (2 old new c cs)
  have "set (drop (length old - 1) cs) \<subseteq> set cs" by (rule set_drop_subset)
  with 2 show ?case by auto
qed

lemma prefix_20_replace_from:
  "prefix ''20'' (replace_from ''%20'' '' '' cs) \<Longrightarrow> prefix ''20'' cs"
proof (cases cs)
  case Nil
  then show "prefix ''20'' (replace_from ''%20'' '' '' cs) \<Longrightarrow> prefix ''20'' cs" by simp
next
  case (Cons x xs)
  assume p: "prefix ''20'' (replace_from ''%20'' '' '' cs)"
  show "prefix ''20'' cs"
  proof (cases xs)
    case Nil
    with Cons p show ?thesis by (simp split: if_splits)
  next
    case (Cons y ys)
    with \<open>cs = x # xs\<close> p show ?thesis by (simp split: if_splits)
  qed
qed

lemma no_percent20_replace_from: "\<not> sublist ''%20'' (replace_from ''%20'' '' '' s)"
proof (induction "''%20''" "'' ''" s rule: replace_from.induct)
  case 1
  then show ?case by simp
next
  case (2 c cs)
  show ?case
  proof (cases "prefix ''%20'' (c # cs)")
    case True
    have ih: "\<not> sublist ''%20'' (replace_from ''%20'' '' '' (drop (Suc (Suc 0)) cs))"
      using 2(1) [OF True] by simp
    have step: "replace_from ''%20'' '' '' (c # cs) =
        CHR '' '' # replace_from ''%20'' '' '' (drop (Suc (Suc 0)) cs)"
      by (simp only: replace_from.simps True if_True) simp
    show ?thesis
      unfolding step using ih by (simp add: sublist_Cons_right)
  next
    case False
    have ih: "\<not> sublist ''%20'' (replace_from ''%20'' '' '' cs)"
      using 2(2) [OF False] .
    have step: "replace_from ''%20'' '' '' (c # cs) = c # replace_from ''%20'' '' '' cs"
      by (simp only: replace_from.simps False if_False)
    have np: "\<not> prefix ''%20'' (c # replace_from ''%20'' '' '' cs)"
    proof
      assume "prefix ''%20'' (c # replace_from ''%20'' '' '' cs)"
      then have "c = CHR ''%''" and "prefix ''20'' (replace_from ''%20'' '' '' cs)"
        by auto
      then have "prefix ''%20'' (c # cs)"
        using prefix_20_replace_from [of cs] by auto
      with False show False by simp
    qed
    show ?thesis
      unfolding step sublist_Cons_right using np ih by blast
  qed
qed

lemma decode_key_clean:
  "CHR ''+'' \<notin> set (replace ''%20'' '' '' (replace ''+'' '' '' s))
   \<and> \<not> sublist ''%20'' (replace ''%20'' '' '' (replace ''+'' '' '' s))"
proof -
  have "CHR ''+'' \<notin> set (replace_from ''+'' '' '' s)"
    by (rule replace_from_single_absent) simp
  moreover have "set (replace_from ''%20'' '' '' (replace_from ''+'' '' '' s))
      \<subseteq> set (replace_from ''+'' '' '' s) \<union> set '' ''"
    by (rule set_replace_from)
  ultimately have "CHR ''+'' \<notin> set (replace_from ''%20'' '' '' (replace_from ''+'' '' '' s))"
    by auto
  then show ?thesis
    by (simp add: replace_def no_percent20_replace_from)
qed

subsection \<open>What the S3 branch does, case by case\<close>

text \<open>
  Whatever the database answers, \<open>delete_from_postgres\<close> records its call and then issues
  neither a job request, nor another deletion request, nor a probe.
\<close>

lemma delete_from_postgres_trace:
  "\<exists>res rest.
     delete_from_postgres w d u p h po t f tr =
       (res, tr @ Call_delete_from_postgres
                    \<lparr>del_db_name = d, del_user = u, del_password = p, del_host = h,
                     del_port = po, del_table_name = t, del_filename = f\<rparr> # rest)
     \<and> requests rest = [] \<and> probes rest = []"
  by (auto simp: delete_from_postgres_def delete_try_def delete_finally_def Let_def bind_def
      call_def emit_def raise_def return_def split: sum.splits)

lemma handle_s3_event_exists:
  assumes "head_object w (s3_bucket_name r) (decode_key w (s3_object_key r)) = Inr ()"
      and "missing w pg_vars = None"
  shows "\<exists>rest.
     handle_s3_event w r tr =
       add_files w (s3_url_of (s3_bucket_name r) (decode_key w (s3_object_key r)))
         (tr @ [Print Log_s3_event,
                Head_object (s3_bucket_name r) (decode_key w (s3_object_key r)),
                Print (Log_already_exists (decode_key w (s3_object_key r))),
                Call_delete_from_postgres
                  (deletion_request_of w (basename (decode_key w (s3_object_key r))))] @ rest)
     \<and> requests rest = [] \<and> probes rest = []"
proof -
  let ?k = "decode_key w (s3_object_key r)"
  let ?b = "s3_bucket_name r"
  let ?tr0 = "tr @ [Print Log_s3_event, Head_object ?b ?k, Print (Log_already_exists ?k)]"
  from assms(2) obtain a b c d e f where env:
    "environ w ''POSTGRES_DB_NAME'' = Some a" "environ w ''POSTGRES_USER'' = Some b"
    "environ w ''POSTGRES_PASSWORD'' = Some c" "environ w ''POSTGRES_HOST'' = Some d"
    "environ w ''POSTGRES_PORT'' = Some e" "environ w ''POSTGRES_TABLE_NAME'' = Some f"
    by (auto simp: missing_None_iff pg_vars_def)
  have req: "deletion_request_of w (basename ?k) =
      \<lparr>del_db_name = a, del_user = b, del_password = c, del_host = d,
       del_port = e, del_table_name = f, del_filename = basename ?k\<rparr>"
    by (simp add: deletion_request_of_def getenv_def env)
  obtain res rest where del:
    "delete_from_postgres w a b c d e f (basename ?k) ?tr0 =
       (res, ?tr0 @ Call_delete_from_postgres (deletion_request_of w (basename ?k)) # rest)"
    and quiet: "requests rest = []" "probes rest = []"
    using delete_from_postgres_trace [of w a b c d e f "basename ?k" ?tr0] req by auto
  show ?thesis
  proof (cases res)
    case (Inl x)
    have "handle_s3_event w r tr =
       add_files w (s3_url_of ?b ?k)
         (tr @ [Print Log_s3_event, Head_object ?b ?k, Print (Log_already_exists ?k),
                Call_delete_from_postgres (deletion_request_of w (basename ?k))]
             @ (rest @ [Print (Log_error_deleting x)]))"
      using del Inl
      by (simp add: handle_s3_event_def bind_def emit_def does_object_exist_def assms(1)
          os_environ_Some env Let_def)
    moreover have "requests (rest @ [Print (Log_error_deleting x)]) = []"
      "probes (rest @ [Print (Log_error_deleting x)]) = []"
      using quiet by (simp_all add: requests_append probes_append)
    ultimately show ?thesis by blast
  next
    case (Inr u)
    have "handle_s3_event w r tr =
       add_files w (s3_url_of ?b ?k)
         (tr @ [Print Log_s3_event, Head_object ?b ?k, Print (Log_already_exists ?k),
                Call_delete_from_postgres (deletion_request_of w (basename ?k))] @ rest)"
      using del Inr
      by (simp add: handle_s3_event_def bind_def emit_def does_object_exist_def assms(1)
          os_environ_Some env Let_def)
    with quiet show ?thesis by blast
  qed
qed

lemma handle_s3_event_not_found:
  assumes "head_object w (s3_bucket_name r) (decode_key w (s3_object_key r)) = Inl (ClientError ''404'')"
  shows "handle_s3_event w r tr =
       add_files w (s3_url_of (s3_bucket_name r) (decode_key w (s3_object_key r)))
         (tr @ [Print Log_s3_event,
                Head_object (s3_bucket_name r) (decode_key w (s3_object_key r))])"
  by (simp add: handle_s3_event_def bind_def emit_def does_object_exist_def assms Let_def
      return_def)

lemma handle_s3_event_probe_raises:
  assumes "head_object w (s3_bucket_name r) (decode_key w (s3_object_key r)) = Inl e"
      and "e \<noteq> ClientError ''404''"
  shows "handle_s3_event w r tr =
       (Inl e, tr @ [Print Log_s3_event,
                Head_object (s3_bucket_name r) (decode_key w (s3_object_key r))])"
  using assms
  by (simp add: handle_s3_event_def bind_def emit_def does_object_exist_def Let_def
      return_def split: exn.splits)

lemma handle_s3_event_pg_missing:
  assumes "head_object w (s3_bucket_name r) (decode_key w (s3_object_key r)) = Inr ()"
      and "missing w pg_vars = Some v"
  shows "handle_s3_event w r tr =
       (Inl (KeyError v), tr @ [Print Log_s3_event,
                Head_object (s3_bucket_name r) (decode_key w (s3_object_key r)),
                Print (Log_already_exists (decode_key w (s3_object_key r)))])"
  using assms
  by (auto simp: handle_s3_event_def bind_def emit_def does_object_exist_def Let_def
      return_def missing_def pg_vars_def os_environ_def raise_def split: if_splits)


lemma add_files_unfold:
  "add_files w s3_url tr =
     (case missing w job_vars of
        Some v \<Rightarrow> (Inl (KeyError v), tr)
      | None \<Rightarrow>
          (case submit_job w (length (submissions tr))
                  (job_request_of w s3_url (length (submissions tr))) of
             Inl e \<Rightarrow> Inl e
           | Inr job_id \<Rightarrow> Inr (started_body job_id),
           tr @ [Submit_job (job_request_of w s3_url (length (submissions tr)))]))"
  by (cases "missing w job_vars") (simp_all add: add_files_missing add_files_configured)

lemma input_url_job_request_of: "input_url (job_request_of w u n) = Some u"
  by (simp add: input_url_def job_request_of_def)

lemma job_vars_cover_pg_vars: "missing w job_vars = None \<Longrightarrow> missing w pg_vars = None"
  by (simp add: missing_None_iff job_vars_def pg_vars_def)

lemma lambda_handler_s3:
  assumes "RequestType ev \<noteq> Some ''Delete''" and "Records ev = Some (r # rs)"
  shows "lambda_handler w ev = handle_s3_event w r"
  using assms by (simp add: lambda_handler_def)

lemma lambda_handler_bulk:
  assumes "RequestType ev \<noteq> Some ''Delete''" and "Records ev = None \<or> Records ev = Some []"
  shows "lambda_handler w ev = handle_custom_resource w"
  using assms by (auto simp: lambda_handler_def)

lemma add_files_deletions: "deletions (snd (add_files w u tr)) = deletions tr"
  by (simp add: add_files_unfold deletions_append split: option.split)

lemma add_files_probes: "probes (snd (add_files w u tr)) = probes tr"
  by (simp add: add_files_unfold probes_append split: option.split)

lemma getenv_Some: "environ w k = Some v \<Longrightarrow> getenv w k = v"
  by (simp add: getenv_def)

lemma handle_s3_event_exists_eq:
  assumes "head_object w (s3_bucket_name r) (decode_key w (s3_object_key r)) = Inr ()"
      and "missing w pg_vars = None"
  shows "handle_s3_event w r tr =
     (case delete_from_postgres w (getenv w ''POSTGRES_DB_NAME'') (getenv w ''POSTGRES_USER'')
             (getenv w ''POSTGRES_PASSWORD'') (getenv w ''POSTGRES_HOST'')
             (getenv w ''POSTGRES_PORT'') (getenv w ''POSTGRES_TABLE_NAME'')
             (basename (decode_key w (s3_object_key r)))
             (tr @ [Print Log_s3_event,
                    Head_object (s3_bucket_name r) (decode_key w (s3_object_key r)),
                    Print (Log_already_exists (decode_key w (s3_object_key r)))]) of
        (Inl e, tr') \<Rightarrow>
          add_files w (s3_url_of (s3_bucket_name r) (decode_key w (s3_object_key r)))
            (tr' @ [Print (Log_error_deleting e)])
      | (Inr u, tr') \<Rightarrow>
          add_files w (s3_url_of (s3_bucket_name r) (decode_key w (s3_object_key r))) tr')"
proof -
  from assms(2) obtain a b c d e f where env:
    "environ w ''POSTGRES_DB_NAME'' = Some a" "environ w ''POSTGRES_USER'' = Some b"
    "environ w ''POSTGRES_PASSWORD'' = Some c" "environ w ''POSTGRES_HOST'' = Some d"
    "environ w ''POSTGRES_PORT'' = Some e" "environ w ''POSTGRES_TABLE_NAME'' = Some f"
    by (auto simp: missing_None_iff pg_vars_def)
  show ?thesis
    by (simp add: handle_s3_event_def bind_def emit_def does_object_exist_def assms(1)
        os_environ_Some env getenv_Some Let_def split: prod.split sum.split)
qed

lemma delete_from_postgres_connect_raises:
  assumes "pg_connect w d u p h po = Inl e"
  shows "delete_from_postgres w d u p h po t f tr =
     (Inl (UnboundLocalError ''cursor''),
      tr @ [Call_delete_from_postgres
              \<lparr>del_db_name = d, del_user = u, del_password = p, del_host = h,
               del_port = po, del_table_name = t, del_filename = f\<rparr>,
            Pg_connect d u p h po,
            Print (Log_error_while_deleting e)])"
  using assms
  by (simp add: delete_from_postgres_def delete_try_def delete_finally_def bind_def raise_def)

lemma delete_from_postgres_cursor_raises:
  assumes "pg_connect w d u p h po = Inr ()" and "pg_cursor w = Inl e"
  shows "delete_from_postgres w d u p h po t f tr =
     (Inl (UnboundLocalError ''cursor''),
      tr @ [Call_delete_from_postgres
              \<lparr>del_db_name = d, del_user = u, del_password = p, del_host = h,
               del_port = po, del_table_name = t, del_filename = f\<rparr>,
            Pg_connect d u p h po,
            Pg_cursor,
            Print (Log_error_while_deleting e)])"
  using assms
  by (simp add: delete_from_postgres_def delete_try_def delete_finally_def bind_def raise_def)

lemma add_files_submissions:
  "submissions (snd (add_files w u tr)) = submissions tr
   \<or> submissions (snd (add_files w u tr)) =
       submissions tr @ [job_request_of w u (length (submissions tr))]"
  by (simp add: add_files_unfold submissions_append split: option.split)

lemma handle_s3_event_shape:
  "probes (snd (handle_s3_event w r [])) =
     [(s3_bucket_name r, decode_key w (s3_object_key r))]
   \<and> (deletions (snd (handle_s3_event w r [])) = []
      \<or> deletions (snd (handle_s3_event w r [])) =
           [deletion_request_of w (basename (decode_key w (s3_object_key r)))])
   \<and> (submissions (snd (handle_s3_event w r [])) = []
      \<or> submissions (snd (handle_s3_event w r [])) =
           [job_request_of w
              (s3_url_of (s3_bucket_name r) (decode_key w (s3_object_key r))) 0])"
proof -
  let ?b = "s3_bucket_name r"
  let ?k = "decode_key w (s3_object_key r)"
  show ?thesis
  proof (cases "head_object w ?b ?k")
    case (Inl e)
    show ?thesis
    proof (cases "e = ClientError ''404''")
      case True
      with Inl have nf: "head_object w ?b ?k = Inl (ClientError ''404'')" by simp
      show ?thesis
        using add_files_submissions [of w "s3_url_of ?b ?k"
            "[Print Log_s3_event, Head_object ?b ?k]"]
        by (simp add: handle_s3_event_not_found [OF nf] add_files_deletions add_files_probes)
    next
      case False
      show ?thesis
        by (simp add: handle_s3_event_probe_raises [OF Inl False])
    qed
  next
    case (Inr u)
    then have ex: "head_object w ?b ?k = Inr ()" by simp
    show ?thesis
    proof (cases "missing w pg_vars")
      case None
      from handle_s3_event_exists [OF ex None, of "[]"]
      obtain rest where run: "handle_s3_event w r [] =
          add_files w (s3_url_of ?b ?k)
            ([] @ [Print Log_s3_event, Head_object ?b ?k, Print (Log_already_exists ?k),
              Call_delete_from_postgres (deletion_request_of w (basename ?k))] @ rest)"
        and quiet: "requests rest = []" "probes rest = []"
        by blast
      show ?thesis
        using add_files_submissions [of w "s3_url_of ?b ?k"
            "[Print Log_s3_event, Head_object ?b ?k, Print (Log_already_exists ?k),
              Call_delete_from_postgres (deletion_request_of w (basename ?k))] @ rest"]
          quiet quiet_submissions [OF quiet(1)] quiet_deletions [OF quiet(1)]
        by (simp add: run add_files_deletions add_files_probes submissions_append
            deletions_append probes_append)
    next
      case (Some v)
      show ?thesis
        by (simp add: handle_s3_event_pg_missing [OF ex Some])
    qed
  qed
qed

lemma handle_s3_event_exists_requests:
  assumes "head_object w (s3_bucket_name r) (decode_key w (s3_object_key r)) = Inr ()"
      and "missing w job_vars = None"
  shows "requests (snd (handle_s3_event w r [])) =
           [Call_delete_from_postgres
              (deletion_request_of w (basename (decode_key w (s3_object_key r)))),
            Submit_job
              (job_request_of w
                 (s3_url_of (s3_bucket_name r) (decode_key w (s3_object_key r))) 0)]"
proof -
  let ?b = "s3_bucket_name r"
  let ?k = "decode_key w (s3_object_key r)"
  from handle_s3_event_exists [OF assms(1) job_vars_cover_pg_vars [OF assms(2)], of "[]"]
  obtain rest where run: "handle_s3_event w r [] =
      add_files w (s3_url_of ?b ?k)
        ([] @ [Print Log_s3_event, Head_object ?b ?k, Print (Log_already_exists ?k),
          Call_delete_from_postgres (deletion_request_of w (basename ?k))] @ rest)"
    and quiet: "requests rest = []"
    by blast
  show ?thesis
    using quiet quiet_submissions [OF quiet]
    by (simp add: run add_files_configured [OF assms(2)] submissions_append requests_append)
qed

subsection \<open>The bulk-listing branch\<close>

lemma process_contents_skip:
  "Size item = 0 \<Longrightarrow>
   process_contents w b (item # items) tr =
     process_contents w b items (tr @ [Print (Log_skipping_folder (Key item))])"
  by (simp add: bind_def emit_def)

lemma process_contents_submit:
  "Size item \<noteq> 0 \<Longrightarrow>
   process_contents w b (item # items) tr =
     (case add_files w (s3_url_of b (Key item)) tr of
        (Inl e, tr') \<Rightarrow> (Inl e, tr')
      | (Inr x, tr') \<Rightarrow> process_contents w b items tr')"
  by (simp add: bind_def)

declare process_contents.simps(2) [simp del]

lemma add_files_Inr:
  assumes "fst (add_files w u tr) = Inr x"
  shows "missing w job_vars = None
       \<and> submit_job w (length (submissions tr)) (job_request_of w u (length (submissions tr)))
           \<noteq> Inl e
       \<and> submissions (snd (add_files w u tr)) =
           submissions tr @ [job_request_of w u (length (submissions tr))]"
  using assms
  by (auto simp: add_files_unfold submissions_append split: option.splits sum.splits)

lemma process_contents_prefix:
  "\<exists>ys. prefix ys (map (\<lambda>i. Some (s3_url_of b (Key i))) (filter (\<lambda>i. Size i \<noteq> 0) items))
      \<and> map input_url (submissions (snd (process_contents w b items tr))) =
          map input_url (submissions tr) @ ys"
proof (induction items arbitrary: tr)
  case Nil
  then show ?case by (simp add: return_def)
next
  case (Cons item items)
  show ?case
  proof (cases "Size item = 0")
    case True
    from Cons [of "tr @ [Print (Log_skipping_folder (Key item))]"]
    show ?thesis
      by (simp add: process_contents_skip [OF True] True submissions_append)
  next
    case False
    let ?u = "s3_url_of b (Key item)"
    obtain res tr' where af: "add_files w ?u tr = (res, tr')"
      by (cases "add_files w ?u tr")
    show ?thesis
    proof (cases res)
      case (Inl e)
      have "submissions tr' = submissions tr
          \<or> submissions tr' = submissions tr @ [job_request_of w ?u (length (submissions tr))]"
        using add_files_submissions [of w ?u tr] af by simp
      then show ?thesis
        using af Inl False
        by (auto simp: process_contents_submit input_url_job_request_of)
    next
      case (Inr x)
      have sub: "submissions tr' =
          submissions tr @ [job_request_of w ?u (length (submissions tr))]"
        using add_files_Inr [of w ?u tr x] af Inr by simp
      from Cons [of tr'] obtain ys where
        ys: "prefix ys (map (\<lambda>i. Some (s3_url_of b (Key i))) (filter (\<lambda>i. Size i \<noteq> 0) items))"
        and eq: "map input_url (submissions (snd (process_contents w b items tr'))) =
          map input_url (submissions tr') @ ys"
        by blast
      have "prefix (Some ?u # ys)
          (map (\<lambda>i. Some (s3_url_of b (Key i))) (filter (\<lambda>i. Size i \<noteq> 0) (item # items)))"
        using ys False by simp
      moreover have "map input_url (submissions (snd (process_contents w b (item # items) tr))) =
          map input_url (submissions tr) @ (Some ?u # ys)"
        using af Inr False eq
        by (simp add: process_contents_submit sub input_url_job_request_of)
      ultimately show ?thesis by blast
    qed
  qed
qed

lemma process_contents_success:
  "fst (process_contents w b items tr) = Inr x \<Longrightarrow>
   map input_url (submissions (snd (process_contents w b items tr))) =
     map input_url (submissions tr)
       @ map (\<lambda>i. Some (s3_url_of b (Key i))) (filter (\<lambda>i. Size i \<noteq> 0) items)"
proof (induction items arbitrary: tr)
  case Nil
  then show ?case by (simp add: return_def)
next
  case (Cons item items)
  show ?case
  proof (cases "Size item = 0")
    case True
    from Cons.prems Cons.IH [of "tr @ [Print (Log_skipping_folder (Key item))]"]
    show ?thesis
      by (simp add: process_contents_skip [OF True] True submissions_append)
  next
    case False
    let ?u = "s3_url_of b (Key item)"
    obtain res tr' where af: "add_files w ?u tr = (res, tr')"
      by (cases "add_files w ?u tr")
    show ?thesis
    proof (cases res)
      case (Inl e)
      with Cons.prems af False show ?thesis
        by (simp add: process_contents_submit)
    next
      case (Inr y)
      have sub: "submissions tr' =
          submissions tr @ [job_request_of w ?u (length (submissions tr))]"
        using add_files_Inr [of w ?u tr y] af Inr by simp
      have "fst (process_contents w b items tr') = Inr x"
        using Cons.prems af Inr False by (simp add: process_contents_submit)
      from Cons.IH [OF this] show ?thesis
        using af Inr False
        by (simp add: process_contents_submit sub input_url_job_request_of)
    qed
  qed
qed

lemma process_contents_accepts:
  assumes "missing w job_vars = None" and "\<And>n q. \<exists>j. submit_job w n q = Inr j"
  shows "fst (process_contents w b items tr) = Inr ()"
proof (induction items arbitrary: tr)
  case Nil
  then show ?case by (simp add: return_def)
next
  case (Cons item items)
  show ?case
  proof (cases "Size item = 0")
    case True
    then show ?thesis by (simp add: process_contents_skip Cons)
  next
    case False
    let ?n = "length (submissions tr)"
    let ?q = "job_request_of w (s3_url_of b (Key item)) ?n"
    from assms(2) [of ?n ?q] obtain j where "submit_job w ?n ?q = Inr j" ..
    then show ?thesis
      using False by (simp add: process_contents_submit add_files_configured [OF assms(1)] Cons)
  qed
qed

lemma handle_custom_resource_unfold:
  assumes "environ w ''S3_BUCKET_NAME'' = Some bucket"
      and "list_objects_v2 w bucket (getenv w ''S3_NOTIFICATION_PREFIX'') = Inr listing"
  shows "handle_custom_resource w tr =
     (case listing of
        None \<Rightarrow>
          (Inr \<lparr>statusCode = 200, body = json_dumps ''Processed existing items.''\<rparr>,
           tr @ [Print Log_custom_resource,
                 List_objects_v2 bucket (getenv w ''S3_NOTIFICATION_PREFIX''),
                 Print Log_no_objects])
      | Some contents \<Rightarrow>
          (case process_contents w bucket contents
                  (tr @ [Print Log_custom_resource,
                         List_objects_v2 bucket (getenv w ''S3_NOTIFICATION_PREFIX''),
                         Print (Log_objects contents)]) of
             (Inl e, tr') \<Rightarrow> (Inl e, tr')
           | (Inr u, tr') \<Rightarrow>
               (Inr \<lparr>statusCode = 200, body = json_dumps ''Processed existing items.''\<rparr>,
                tr')))"
  using assms
  by (simp add: handle_custom_resource_def bind_def emit_def call_def return_def
      os_environ_Some getenv_def Let_def split: option.splits prod.splits sum.splits)

subsection \<open>Answers of the batch service\<close>

lemma add_files_answer:
  assumes inv: "\<forall>i<length (submissions tr). \<exists>j. submit_job w i (submissions tr ! i) = Inr j"
  shows "(fst (add_files w u tr) = Inr x \<longrightarrow>
            (\<forall>i<length (submissions (snd (add_files w u tr))).
               \<exists>j. submit_job w i (submissions (snd (add_files w u tr)) ! i) = Inr j))
       \<and> (i < length (submissions (snd (add_files w u tr)))
          \<and> submit_job w i (submissions (snd (add_files w u tr)) ! i) = Inl e \<longrightarrow>
            fst (add_files w u tr) = Inl e)"
proof -
  have no: "submit_job w i (submissions tr ! i) \<noteq> Inl e" if "i < length (submissions tr)" for i e
    using inv that by fastforce
  show ?thesis
  proof (cases "missing w job_vars")
    case (Some v)
    then show ?thesis using no by (auto simp: add_files_missing)
  next
    case None
    let ?n = "length (submissions tr)"
    let ?q = "job_request_of w u ?n"
    show ?thesis
    proof (cases "submit_job w ?n ?q")
      case (Inl e')
      then show ?thesis
        using no
        by (auto simp: add_files_configured [OF None] submissions_append nth_append
            less_Suc_eq)
    next
      case (Inr j)
      then show ?thesis
        using no inv
        by (auto simp: add_files_configured [OF None] submissions_append nth_append
            less_Suc_eq)
    qed
  qed
qed

lemma process_contents_answer:
  assumes "\<forall>i<length (submissions tr). \<exists>j. submit_job w i (submissions tr ! i) = Inr j"
      and "i < length (submissions (snd (process_contents w b items tr)))"
      and "submit_job w i (submissions (snd (process_contents w b items tr)) ! i) = Inl e"
  shows "fst (process_contents w b items tr) = Inl e"
  using assms
proof (induction items arbitrary: tr)
  case Nil
  then show ?case by (fastforce simp: return_def)
next
  case (Cons item items)
  show ?case
  proof (cases "Size item = 0")
    case True
    let ?tr1 = "tr @ [Print (Log_skipping_folder (Key item))]"
    have inv: "\<forall>i<length (submissions ?tr1).
        \<exists>j. submit_job w i (submissions ?tr1 ! i) = Inr j"
      using Cons.prems(1) by (simp add: submissions_append)
    from Cons.IH [of ?tr1, OF inv] Cons.prems(2,3)
    show ?thesis by (simp add: process_contents_skip [OF True])
  next
    case False
    let ?u = "s3_url_of b (Key item)"
    obtain res tr' where af: "add_files w ?u tr = (res, tr')"
      by (cases "add_files w ?u tr")
    show ?thesis
    proof (cases res)
      case (Inl e')
      have "fst (add_files w ?u tr) = Inl e"
        using add_files_answer [OF Cons.prems(1), of ?u undefined i e] Cons.prems(2,3) af Inl False
        by (simp add: process_contents_submit)
      then show ?thesis
        using af Inl False by (simp add: process_contents_submit)
    next
      case (Inr x)
      have inv: "\<forall>i<length (submissions tr').
          \<exists>j. submit_job w i (submissions tr' ! i) = Inr j"
        using add_files_answer [OF Cons.prems(1), of ?u x i e] af Inr by simp
      from Cons.IH [of tr', OF inv] Cons.prems(2,3)
      show ?thesis
        using af Inr False by (simp add: process_contents_submit)
    qed
  qed
qed

lemma process_contents_missing:
  assumes "missing w job_vars = Some v" and "filter (\<lambda>i. Size i \<noteq> 0) items \<noteq> []"
  shows "fst (process_contents w b items tr) = Inl (KeyError v)
       \<and> submissions (snd (process_contents w b items tr)) = submissions tr"
  using assms(2)
proof (induction items arbitrary: tr)
  case Nil
  then show ?case by simp
next
  case (Cons item items)
  show ?case
  proof (cases "Size item = 0")
    case True
    with Cons.prems have "filter (\<lambda>i. Size i \<noteq> 0) items \<noteq> []" by simp
    from Cons.IH [OF this, of "tr @ [Print (Log_skipping_folder (Key item))]"]
    show ?thesis by (simp add: process_contents_skip [OF True] submissions_append)
  next
    case False
    then show ?thesis
      by (simp add: process_contents_submit add_files_missing [OF assms(1)])
  qed
qed

lemma handle_s3_event_cases:
  "(\<exists>pre. handle_s3_event w r [] =
       add_files w (s3_url_of (s3_bucket_name r) (decode_key w (s3_object_key r))) pre
     \<and> submissions pre = [])
   \<or> (\<exists>e tr. handle_s3_event w r [] = (Inl e, tr) \<and> submissions tr = [])"
proof -
  let ?b = "s3_bucket_name r"
  let ?k = "decode_key w (s3_object_key r)"
  show ?thesis
  proof (cases "head_object w ?b ?k")
    case (Inl e)
    show ?thesis
    proof (cases "e = ClientError ''404''")
      case True
      with Inl have nf: "head_object w ?b ?k = Inl (ClientError ''404'')" by simp
      have "handle_s3_event w r [] =
          add_files w (s3_url_of ?b ?k) [Print Log_s3_event, Head_object ?b ?k]
        \<and> submissions [Print Log_s3_event, Head_object ?b ?k] = []"
        using handle_s3_event_not_found [OF nf, of "[]"] by simp
      then show ?thesis by blast
    next
      case False
      have "handle_s3_event w r [] = (Inl e, [Print Log_s3_event, Head_object ?b ?k])
        \<and> submissions [Print Log_s3_event, Head_object ?b ?k] = []"
        using handle_s3_event_probe_raises [OF Inl False, of "[]"] by simp
      then show ?thesis by blast
    qed
  next
    case (Inr u)
    then have ex: "head_object w ?b ?k = Inr ()" by simp
    show ?thesis
    proof (cases "missing w pg_vars")
      case None
      from handle_s3_event_exists [OF ex None, of "[]"]
      obtain rest where run: "handle_s3_event w r [] =
          add_files w (s3_url_of ?b ?k)
            ([] @ [Print Log_s3_event, Head_object ?b ?k, Print (Log_already_exists ?k),
              Call_delete_from_postgres (deletion_request_of w (basename ?k))] @ rest)"
        and quiet: "requests rest = []"
        by blast
      have "submissions ([] @ [Print Log_s3_event, Head_object ?b ?k,
              Print (Log_already_exists ?k),
              Call_delete_from_postgres (deletion_request_of w (basename ?k))] @ rest) = []"
        using quiet_submissions [OF quiet] by (simp add: submissions_append)
      with run show ?thesis by blast
    next
      case (Some v)
      have "handle_s3_event w r [] =
          (Inl (KeyError v), [Print Log_s3_event, Head_object ?b ?k,
             Print (Log_already_exists ?k)])
        \<and> submissions [Print Log_s3_event, Head_object ?b ?k,
             Print (Log_already_exists ?k)] = []"
        using handle_s3_event_pg_missing [OF ex Some, of "[]"] by simp
      then show ?thesis by blast
    qed
  qed
qed

lemma handle_custom_resource_cases:
  "(\<exists>bucket contents tr0.
      submissions tr0 = []
      \<and> handle_custom_resource w [] =
          (case process_contents w bucket contents tr0 of
             (Inl e, tr') \<Rightarrow> (Inl e, tr')
           | (Inr u, tr') \<Rightarrow>
               (Inr \<lparr>statusCode = 200, body = json_dumps ''Processed existing items.''\<rparr>,
                tr')))
   \<or> submissions (snd (handle_custom_resource w [])) = []"
proof (cases "environ w ''S3_BUCKET_NAME''")
  case None
  then show ?thesis
    by (simp add: handle_custom_resource_def bind_def emit_def os_environ_None)
next
  case (Some bucket)
  show ?thesis
  proof (cases "list_objects_v2 w bucket (getenv w ''S3_NOTIFICATION_PREFIX'')")
    case (Inl e)
    then show ?thesis
      using Some
      by (simp add: handle_custom_resource_def bind_def emit_def os_environ_Some call_def
          getenv_def Let_def)
  next
    case (Inr listing)
    note unf = handle_custom_resource_unfold [OF Some Inr, of "[]"]
    show ?thesis
    proof (cases listing)
      case None
      with unf show ?thesis by simp
    next
      case (Some contents)
      let ?tr0 = "[Print Log_custom_resource,
          List_objects_v2 bucket (getenv w ''S3_NOTIFICATION_PREFIX''),
          Print (Log_objects contents)]"
      have "submissions ?tr0 = []" by simp
      moreover have "handle_custom_resource w [] =
          (case process_contents w bucket contents ?tr0 of
             (Inl e, tr') \<Rightarrow> (Inl e, tr')
           | (Inr u, tr') \<Rightarrow>
               (Inr \<lparr>statusCode = 200, body = json_dumps ''Processed existing items.''\<rparr>,
                tr'))"
        using unf Some by simp
      ultimately show ?thesis by blast
    qed
  qed
qed

lemma lambda_handler_answer:
  assumes "i < length (submissions (snd (lambda_handler w ev [])))"
      and "submit_job w i (submissions (snd (lambda_handler w ev [])) ! i) = Inl e"
  shows "fst (lambda_handler w ev []) = Inl e"
proof (cases "RequestType ev = Some ''Delete''")
  case True
  with assms(1) show ?thesis
    by (simp add: lambda_handler_def bind_def emit_def return_def)
next
  case False
  have empty: "\<forall>i<length (submissions tr).
      \<exists>j. submit_job w i (submissions tr ! i) = Inr j" if "submissions tr = []" for tr
    using that by simp
  have s3: "fst (handle_s3_event w r []) = Inl e"
    if "i < length (submissions (snd (handle_s3_event w r [])))"
      and "submit_job w i (submissions (snd (handle_s3_event w r [])) ! i) = Inl e" for r
    using handle_s3_event_cases [of w r]
  proof (elim disjE exE conjE)
    fix pre
    assume run: "handle_s3_event w r [] =
        add_files w (s3_url_of (s3_bucket_name r) (decode_key w (s3_object_key r))) pre"
      and pre: "submissions pre = []"
    from add_files_answer [OF empty [OF pre], of _ undefined i e] that
    show ?thesis by (simp add: run)
  next
    fix e' tr
    assume "handle_s3_event w r [] = (Inl e', tr)" and "submissions tr = []"
    with that(1) show ?thesis by simp
  qed
  have bulk: "fst (handle_custom_resource w []) = Inl e"
    if lt: "i < length (submissions (snd (handle_custom_resource w [])))"
      and ans: "submit_job w i (submissions (snd (handle_custom_resource w [])) ! i) = Inl e"
    using handle_custom_resource_cases [of w]
  proof (elim disjE exE conjE)
    fix bucket contents tr0
    assume tr0: "submissions tr0 = []"
      and run: "handle_custom_resource w [] =
          (case process_contents w bucket contents tr0 of
             (Inl e, tr') \<Rightarrow> (Inl e, tr')
           | (Inr u, tr') \<Rightarrow>
               (Inr \<lparr>statusCode = 200, body = json_dumps ''Processed existing items.''\<rparr>,
                tr'))"
    obtain res tr' where pc: "process_contents w bucket contents tr0 = (res, tr')"
      by (cases "process_contents w bucket contents tr0")
    have snd_eq: "snd (handle_custom_resource w []) = tr'"
      using run pc by (simp split: sum.splits)
    have "fst (process_contents w bucket contents tr0) = Inl e"
      using process_contents_answer [OF empty [OF tr0], of i bucket contents e] lt ans
      by (simp add: snd_eq pc)
    then show ?thesis using run pc by simp
  next
    assume "submissions (snd (handle_custom_resource w [])) = []"
    with lt show ?thesis by simp
  qed
  show ?thesis
  proof (cases "Records ev")
    case None
    then have "lambda_handler w ev = handle_custom_resource w"
      using False by (simp add: lambda_handler_def)
    with bulk assms show ?thesis by simp
  next
    case (Some rs)
    show ?thesis
    proof (cases rs)
      case Nil
      with Some have "lambda_handler w ev = handle_custom_resource w"
        using False by (simp add: lambda_handler_def)
      with bulk assms show ?thesis by simp
    next
      case (Cons r rs')
      with Some have "lambda_handler w ev = handle_s3_event w r"
        using False by (simp add: lambda_handler_def)
      with s3 [of r] assms show ?thesis by simp
    qed
  qed
qed

lemma handle_s3_event_exists_result:
  assumes "head_object w (s3_bucket_name r) (decode_key w (s3_object_key r)) = Inr ()"
      and "missing w job_vars = None"
  shows "fst (handle_s3_event w r []) =
           (case submit_job w 0
                   (job_request_of w
                      (s3_url_of (s3_bucket_name r) (decode_key w (s3_object_key r))) 0) of
              Inl e \<Rightarrow> Inl e
            | Inr job_id \<Rightarrow> Inr (started_body job_id))"
proof -
  let ?b = "s3_bucket_name r"
  let ?k = "decode_key w (s3_object_key r)"
  from handle_s3_event_exists [OF assms(1) job_vars_cover_pg_vars [OF assms(2)], of "[]"]
  obtain rest where run: "handle_s3_event w r [] =
      add_files w (s3_url_of ?b ?k)
        ([] @ [Print Log_s3_event, Head_object ?b ?k, Print (Log_already_exists ?k),
          Call_delete_from_postgres (deletion_request_of w (basename ?k))] @ rest)"
    and quiet: "requests rest = []"
    by blast
  show ?thesis
    using quiet_submissions [OF quiet]
    by (simp add: run add_files_configured [OF assms(2)] submissions_append)
qed

subsection \<open>Responses\<close>

lemma json_escape_plain: "json_plain c \<Longrightarrow> json_escape c = [c]"
  by (auto simp: json_plain_def json_escape_def Let_def)

lemma json_dumps_plain: "list_all json_plain s \<Longrightarrow> json_dumps s = CHR 0x22 # s @ [CHR 0x22]"
proof -
  assume "list_all json_plain s"
  then have "concat (map json_escape s) = s"
    by (induction s) (simp_all add: json_escape_plain)
  then show ?thesis by (simp add: json_dumps_def)
qed

lemma started_prefix_plain: "list_all json_plain ''Started Batch Job: ''"
  by code_simp

lemma started_body_contains:
  assumes "list_all json_plain job_id"
  shows "sublist job_id (body (started_body job_id))"
proof -
  have "list_all json_plain (''Started Batch Job: '' @ job_id)"
    using assms started_prefix_plain by simp
  then have "body (started_body job_id) =
      (CHR 0x22 # ''Started Batch Job: '') @ job_id @ [CHR 0x22]"
    by (simp add: started_body_def json_dumps_plain)
  then show ?thesis
    unfolding sublist_def by blast
qed

lemma handle_custom_resource_response:
  "fst (handle_custom_resource w tr) = Inr resp \<Longrightarrow>
   resp = \<lparr>statusCode = 200, body = json_dumps ''Processed existing items.''\<rparr>"
  by (auto simp: handle_custom_resource_def bind_def emit_def call_def return_def
      os_environ_def raise_def Let_def split: option.splits sum.splits prod.splits)

lemma handle_s3_event_response:
  assumes "fst (handle_s3_event w r []) = Inr resp"
  shows "\<exists>job_id.
      submit_job w 0
        (job_request_of w (s3_url_of (s3_bucket_name r) (decode_key w (s3_object_key r))) 0) =
        Inr job_id
    \<and> submissions (snd (handle_s3_event w r [])) =
        [job_request_of w (s3_url_of (s3_bucket_name r) (decode_key w (s3_object_key r))) 0]
    \<and> resp = started_body job_id"
  using handle_s3_event_cases [of w r]
proof (elim disjE exE conjE)
  fix pre
  assume run: "handle_s3_event w r [] =
      add_files w (s3_url_of (s3_bucket_name r) (decode_key w (s3_object_key r))) pre"
    and pre: "submissions pre = []"
  from assms show ?thesis
    by (auto simp: run pre add_files_unfold submissions_append
        split: option.splits sum.splits)
next
  fix e tr
  assume "handle_s3_event w r [] = (Inl e, tr)"
  with assms show ?thesis by simp
qed

subsection \<open>The sample worlds\<close>

lemma sample_key_unquoted: "unquote_to_bytes sample_key = ''in/my+file%20v2.pdf''"
  by code_simp

lemma sample_key_runs: "ascii_runs sample_key = [(True, sample_key)]"
  by code_simp

lemma sample_key_ascii: "list_all is_ascii ''in/my+file%20v2.pdf''"
  by code_simp

lemma sample_key_percent: "CHR ''%'' \<in> set sample_key"
  by code_simp

lemma sample_key_replaced:
  "replace ''%20'' '' '' (replace ''+'' '' '' ''in/my+file%20v2.pdf'') = ''in/my file v2.pdf''"
  by code_simp

lemma decode_utf8_ascii: "list_all is_ascii bs \<Longrightarrow> decode_utf8 codec bs = bs"
  by (simp add: decode_utf8_def)

lemma sample_key_decoded:
  "decode_key w sample_key = ''in/my file v2.pdf''"
  by (simp add: decode_key_def unquote_def sample_key_percent sample_key_runs
      sample_key_unquoted decode_utf8_ascii [OF sample_key_ascii] sample_key_replaced)

lemma sample_basename: "basename ''in/my file v2.pdf'' = ''my file v2.pdf''"
  by code_simp


lemma sample_world_configured: "missing sample_world job_vars = None"
  by (simp add: missing_def job_vars_def sample_world_def sample_environ_def)

lemma not_found_world_configured: "missing not_found_world job_vars = None"
  by (simp add: missing_def job_vars_def not_found_world_def sample_world_def sample_environ_def)

lemma sample_world_head: "head_object sample_world b k = Inr ()"
  by (simp add: sample_world_def)

lemma not_found_world_head: "head_object not_found_world b k = Inl (ClientError ''404'')"
  by (simp add: not_found_world_def)

lemma forbidden_world_head: "head_object forbidden_world b k = Inl (ClientError ''403'')"
  by (simp add: forbidden_world_def)

lemma db_down_world_configured: "missing db_down_world job_vars = None"
  by (simp add: missing_def job_vars_def db_down_world_def sample_world_def sample_environ_def)

lemma db_down_world_head: "head_object db_down_world b k = Inr ()"
  by (simp add: db_down_world_def sample_world_def)

lemma db_down_world_submit: "submit_job db_down_world n q = Inr ''job-7''"
  by (simp add: db_down_world_def sample_world_def)

lemma sample_run:
  "requests (snd (lambda_handler sample_world (s3_event ''docs'' sample_key) [])) =
     [Call_delete_from_postgres (deletion_request_of sample_world ''my file v2.pdf''),
      Submit_job (job_request_of sample_world ''s3://docs/in/my file v2.pdf'' 0)]"
  using handle_s3_event_exists_requests [of sample_world
      "\<lparr>s3_bucket_name = ''docs'', s3_object_key = sample_key\<rparr>"]
  by (simp add: lambda_handler_def s3_event_def sample_world_head sample_world_configured
      sample_key_decoded sample_basename s3_url_of_def)

lemma docs_key_unquoted: "unquote_to_bytes docs_key = ''a+b.pdf''"
  by code_simp

lemma docs_key_runs: "ascii_runs docs_key = [(True, docs_key)]"
  by code_simp

lemma docs_key_ascii: "list_all is_ascii ''a+b.pdf''"
  by code_simp

lemma docs_key_percent: "CHR ''%'' \<in> set docs_key"
  by code_simp

lemma docs_key_replaced:
  "replace ''%20'' '' '' (replace ''+'' '' '' ''a+b.pdf'') = ''a b.pdf''"
  by code_simp

lemma docs_key_decoded: "decode_key w docs_key = ''a b.pdf''"
  by (simp add: decode_key_def unquote_def docs_key_percent docs_key_runs
      docs_key_unquoted decode_utf8_ascii [OF docs_key_ascii] docs_key_replaced)

lemma docs_basename: "basename ''a b.pdf'' = ''a b.pdf''"
  by code_simp

lemma docs_run:
  assumes "head_object w ''docs'' ''a b.pdf'' = Inr ()" and "missing w job_vars = None"
  shows "requests (snd (lambda_handler w (s3_event ''docs'' docs_key) [])) =
           [Call_delete_from_postgres (deletion_request_of w ''a b.pdf''),
            Submit_job (job_request_of w ''s3://docs/a b.pdf'' 0)]"
  using handle_s3_event_exists_requests [of w
      "\<lparr>s3_bucket_name = ''docs'', s3_object_key = docs_key\<rparr>"] assms
  by (simp add: lambda_handler_def s3_event_def docs_key_decoded docs_basename s3_url_of_def)

lemma sample_world_bucket: "environ sample_world ''S3_BUCKET_NAME'' = Some ''docs''"
  by (simp add: sample_world_def sample_environ_def)

lemma sample_world_prefix: "getenv sample_world ''S3_NOTIFICATION_PREFIX'' = ''in/''"
  by (simp add: getenv_def sample_world_def sample_environ_def)

lemma sample_world_listing:
  "list_objects_v2 sample_world b p =
     Inr (Some [\<lparr>Key = ''in/x.pdf'', Size = 10\<rparr>, \<lparr>Key = ''in/'', Size = 0\<rparr>])"
  by (simp add: sample_world_def)

lemma sample_world_submit: "submit_job sample_world n q = Inr ''job-7''"
  by (simp add: sample_world_def)

lemma empty_bucket_world_bucket: "environ empty_bucket_world ''S3_BUCKET_NAME'' = Some ''docs''"
  by (simp add: empty_bucket_world_def sample_world_def sample_environ_def)

lemma empty_bucket_world_listing: "list_objects_v2 empty_bucket_world b p = Inr None"
  by (simp add: empty_bucket_world_def)

lemma batch_down_world_configured: "missing batch_down_world job_vars = None"
  by (simp add: missing_def job_vars_def batch_down_world_def sample_world_def
      sample_environ_def)

lemma batch_down_world_head: "head_object batch_down_world b k = Inr ()"
  by (simp add: batch_down_world_def sample_world_def)

lemma batch_down_world_submit:
  "submit_job batch_down_world n q = Inl (Error ''batch unavailable'')"
  by (simp add: batch_down_world_def)

lemma unconfigured_world_head: "head_object unconfigured_world b k = Inr ()"
  by (simp add: unconfigured_world_def sample_world_def)

lemma unconfigured_world_pg: "missing unconfigured_world pg_vars = None"
  by (simp add: missing_def pg_vars_def unconfigured_world_def sample_environ_def)

lemma unconfigured_world_job: "missing unconfigured_world job_vars = Some ''JOB_QUEUE''"
  by (simp add: missing_def job_vars_def unconfigured_world_def sample_environ_def)

lemma unconfigured_world_bucket: "environ unconfigured_world ''S3_BUCKET_NAME'' = Some ''docs''"
  by (simp add: unconfigured_world_def sample_environ_def)

lemma unconfigured_world_listing:
  "list_objects_v2 unconfigured_world b p =
     Inr (Some [\<lparr>Key = ''in/x.pdf'', Size = 10\<rparr>, \<lparr>Key = ''in/'', Size = 0\<rparr>])"
  by (simp add: unconfigured_world_def sample_world_def)

lemma sample_result:
  "fst (lambda_handler sample_world (s3_event ''docs'' sample_key) []) =
     Inr (started_body ''job-7'')"
  using handle_s3_event_exists_result [of sample_world
      "\<lparr>s3_bucket_name = ''docs'', s3_object_key = sample_key\<rparr>"]
  by (simp add: lambda_handler_def s3_event_def sample_world_head sample_world_configured
      sample_world_submit)

lemma sample_bulk_result:
  "fst (lambda_handler sample_world bulk_event []) =
     Inr \<lparr>statusCode = 200, body = json_dumps ''Processed existing items.''\<rparr>"
proof -
  let ?contents = "[\<lparr>Key = ''in/x.pdf'', Size = 10\<rparr>, \<lparr>Key = ''in/'', Size = 0\<rparr>]"
  let ?tr0 = "[Print Log_custom_resource, List_objects_v2 ''docs'' ''in/'',
      Print (Log_objects ?contents)]"
  have acc: "\<And>n q. \<exists>j. submit_job sample_world n q = Inr j"
    by (simp add: sample_world_submit)
  obtain res tr' where pc: "process_contents sample_world ''docs'' ?contents ?tr0 = (res, tr')"
    by (cases "process_contents sample_world ''docs'' ?contents ?tr0")
  have "res = Inr ()"
    using process_contents_accepts [OF sample_world_configured acc, of "''docs''" ?contents ?tr0]
      pc by simp
  then show ?thesis
    using handle_custom_resource_unfold [OF sample_world_bucket sample_world_listing, of "[]"] pc
    by (simp add: lambda_handler_def bulk_event_def sample_world_prefix)
qed

lemma job_7_plain: "list_all json_plain ''job-7''"
  by code_simp

lemma processed_body_text:
  "json_dumps ''Processed existing items.'' =
     CHR 0x22 # ''Processed existing items.'' @ [CHR 0x22]"
  by code_simp

subsection \<open>The teardown event\<close>

text \<open>
  Claim C6. For every teardown event (\<open>RequestType\<close> is \<open>Delete\<close>) the handler prints one
  line and returns the response with status 200 at once: the trace holds no call of
  \<open>delete_from_postgres\<close> and no \<open>submit_job\<close>, whatever the rest of the event and the
  world are.
\<close>

theorem teardown_no_requests:
  assumes "RequestType ev = Some ''Delete''"
  shows "lambda_handler w ev [] =
           (Inr \<lparr>statusCode = 200, body = json_dumps ''Delete event - no action taken.''\<rparr>,
            [Print Log_stack_deleted])
         \<and> deletions (snd (lambda_handler w ev [])) = []
         \<and> submissions (snd (lambda_handler w ev [])) = []"
  using assms by (simp add: lambda_handler_def bind_def emit_def return_def)

theorem teardown_no_requests_witness:
  "RequestType teardown_event = Some ''Delete''
   \<and> lambda_handler sample_world teardown_event [] =
           (Inr \<lparr>statusCode = 200, body = json_dumps ''Delete event - no action taken.''\<rparr>,
            [Print Log_stack_deleted])
   \<and> deletions (snd (lambda_handler sample_world teardown_event [])) = []
   \<and> submissions (snd (lambda_handler sample_world teardown_event [])) = []"
  using teardown_no_requests [of teardown_event sample_world]
  by (simp add: teardown_event_def)

subsection \<open>The storage-change event\<close>

text \<open>
  Claim C1. Take a storage-change event (not a teardown, \<open>Records\<close> non-empty, first record
  \<open>r\<close>) in a process whose environment holds the variables \<open>add_files\<close> reads. If the
  probe finds the decoded key, the handler calls \<open>delete_from_postgres\<close> exactly once, with
  the configured connection parameters and table and with the basename of the decoded key as
  filename; if the probe answers 404, it never calls it. In both cases it submits exactly one
  job, whose \<open>AWS_S3_URL\<close> is the storage URI of the bucket and the decoded key. The
  database's answers play no part.
\<close>

theorem storage_change_requests:
  assumes "RequestType ev \<noteq> Some ''Delete''" and "Records ev = Some (r # rs)"
      and "missing w job_vars = None"
  shows "(head_object w (s3_bucket_name r) (decode_key w (s3_object_key r)) = Inr () \<longrightarrow>
            deletions (snd (lambda_handler w ev [])) =
              [deletion_request_of w (basename (decode_key w (s3_object_key r)))]
          \<and> map del_filename (deletions (snd (lambda_handler w ev []))) =
              [basename (decode_key w (s3_object_key r))])
       \<and> (head_object w (s3_bucket_name r) (decode_key w (s3_object_key r)) =
             Inl (ClientError ''404'') \<longrightarrow>
            deletions (snd (lambda_handler w ev [])) = [])
       \<and> (head_object w (s3_bucket_name r) (decode_key w (s3_object_key r)) = Inr ()
          \<or> head_object w (s3_bucket_name r) (decode_key w (s3_object_key r)) =
             Inl (ClientError ''404'') \<longrightarrow>
            submissions (snd (lambda_handler w ev [])) =
              [job_request_of w
                 (s3_url_of (s3_bucket_name r) (decode_key w (s3_object_key r))) 0]
          \<and> map input_url (submissions (snd (lambda_handler w ev []))) =
              [Some (s3_url_of (s3_bucket_name r) (decode_key w (s3_object_key r)))])"
proof -
  let ?b = "s3_bucket_name r"
  let ?k = "decode_key w (s3_object_key r)"
  have h: "lambda_handler w ev = handle_s3_event w r"
    using assms(1,2) by (rule lambda_handler_s3)
  have found: "deletions (snd (lambda_handler w ev [])) = [deletion_request_of w (basename ?k)]
      \<and> submissions (snd (lambda_handler w ev [])) = [job_request_of w (s3_url_of ?b ?k) 0]"
    if ex: "head_object w ?b ?k = Inr ()"
  proof -
    from handle_s3_event_exists [OF ex job_vars_cover_pg_vars [OF assms(3)], of "[]"]
    obtain rest where run: "handle_s3_event w r [] =
        add_files w (s3_url_of ?b ?k)
          ([] @ [Print Log_s3_event, Head_object ?b ?k, Print (Log_already_exists ?k),
            Call_delete_from_postgres (deletion_request_of w (basename ?k))] @ rest)"
      and quiet: "requests rest = []"
      by blast
    show ?thesis
      using quiet_submissions [OF quiet] quiet_deletions [OF quiet]
      by (simp add: h run add_files_configured [OF assms(3)] submissions_append
          deletions_append)
  qed
  have absent: "deletions (snd (lambda_handler w ev [])) = []
      \<and> submissions (snd (lambda_handler w ev [])) = [job_request_of w (s3_url_of ?b ?k) 0]"
    if nf: "head_object w ?b ?k = Inl (ClientError ''404'')"
    by (simp add: h handle_s3_event_not_found [OF nf] add_files_configured [OF assms(3)])
  show ?thesis
    using found absent
    by (auto simp: deletion_request_of_def input_url_job_request_of)
qed

theorem storage_change_requests_witness:
  "RequestType (s3_event ''docs'' sample_key) \<noteq> Some ''Delete''
   \<and> Records (s3_event ''docs'' sample_key) =
       Some [\<lparr>s3_bucket_name = ''docs'', s3_object_key = sample_key\<rparr>]
   \<and> missing sample_world job_vars = None
   \<and> head_object sample_world ''docs'' (decode_key sample_world sample_key) = Inr ()
   \<and> map del_filename (deletions (snd (lambda_handler sample_world (s3_event ''docs'' sample_key) [])))
       = [''my file v2.pdf'']
   \<and> map input_url (submissions (snd (lambda_handler sample_world (s3_event ''docs'' sample_key) [])))
       = [Some ''s3://docs/in/my file v2.pdf'']
   \<and> missing not_found_world job_vars = None
   \<and> head_object not_found_world ''docs'' (decode_key not_found_world sample_key)
       = Inl (ClientError ''404'')
   \<and> deletions (snd (lambda_handler not_found_world (s3_event ''docs'' sample_key) [])) = []
   \<and> map input_url (submissions (snd (lambda_handler not_found_world (s3_event ''docs'' sample_key) [])))
       = [Some ''s3://docs/in/my file v2.pdf'']"
  using storage_change_requests [of "s3_event ''docs'' sample_key"
          "\<lparr>s3_bucket_name = ''docs'', s3_object_key = sample_key\<rparr>" "[]" sample_world]
        storage_change_requests [of "s3_event ''docs'' sample_key"
          "\<lparr>s3_bucket_name = ''docs'', s3_object_key = sample_key\<rparr>" "[]" not_found_world]
  by (simp add: s3_event_def sample_world_configured not_found_world_configured
      sample_key_decoded sample_basename s3_url_of_def sample_world_head not_found_world_head
      input_url_job_request_of deletion_request_of_def)

text \<open>
  Claim C7. For a storage-change event: when the probe answers 404, the handler calls
  \<open>delete_from_postgres\<close> not at all and goes on with \<open>add_files\<close> for the storage URI
  (which, in a configured process, submits the one job); when the probe raises anything else
  (\<open>e\<close>, not the 404 \<open>ClientError\<close>), the handler ends with that exception right after the
  probe, having called neither \<open>delete_from_postgres\<close> nor \<open>submit_job\<close>.
\<close>

theorem probe_not_found_or_failing:
  assumes "RequestType ev \<noteq> Some ''Delete''" and "Records ev = Some (r # rs)"
  shows "(head_object w (s3_bucket_name r) (decode_key w (s3_object_key r)) =
            Inl (ClientError ''404'') \<longrightarrow>
            lambda_handler w ev [] =
              add_files w (s3_url_of (s3_bucket_name r) (decode_key w (s3_object_key r)))
                [Print Log_s3_event,
                 Head_object (s3_bucket_name r) (decode_key w (s3_object_key r))]
          \<and> deletions (snd (lambda_handler w ev [])) = []
          \<and> (missing w job_vars = None \<longrightarrow>
               submissions (snd (lambda_handler w ev [])) =
                 [job_request_of w
                    (s3_url_of (s3_bucket_name r) (decode_key w (s3_object_key r))) 0]))
       \<and> (head_object w (s3_bucket_name r) (decode_key w (s3_object_key r)) = Inl e
          \<and> e \<noteq> ClientError ''404'' \<longrightarrow>
            lambda_handler w ev [] =
              (Inl e, [Print Log_s3_event,
                       Head_object (s3_bucket_name r) (decode_key w (s3_object_key r))])
          \<and> deletions (snd (lambda_handler w ev [])) = []
          \<and> submissions (snd (lambda_handler w ev [])) = [])"
proof -
  let ?b = "s3_bucket_name r"
  let ?k = "decode_key w (s3_object_key r)"
  have h: "lambda_handler w ev = handle_s3_event w r"
    using assms by (rule lambda_handler_s3)
  have nf: "lambda_handler w ev [] =
              add_files w (s3_url_of ?b ?k) [Print Log_s3_event, Head_object ?b ?k]
          \<and> deletions (snd (lambda_handler w ev [])) = []
          \<and> (missing w job_vars = None \<longrightarrow>
               submissions (snd (lambda_handler w ev [])) =
                 [job_request_of w (s3_url_of ?b ?k) 0])"
    if "head_object w ?b ?k = Inl (ClientError ''404'')"
    using handle_s3_event_not_found [OF that, of "[]"]
    by (simp add: h add_files_deletions add_files_configured)
  have other: "lambda_handler w ev [] = (Inl e, [Print Log_s3_event, Head_object ?b ?k])
          \<and> deletions (snd (lambda_handler w ev [])) = []
          \<and> submissions (snd (lambda_handler w ev [])) = []"
    if "head_object w ?b ?k = Inl e" and "e \<noteq> ClientError ''404''"
    using handle_s3_event_probe_raises [OF that, of "[]"] by (simp add: h)
  show ?thesis using nf other by blast
qed

theorem probe_not_found_or_failing_witness:
  "RequestType (s3_event ''docs'' sample_key) \<noteq> Some ''Delete''
   \<and> Records (s3_event ''docs'' sample_key) =
       Some [\<lparr>s3_bucket_name = ''docs'', s3_object_key = sample_key\<rparr>]
   \<and> head_object not_found_world ''docs'' (decode_key not_found_world sample_key) =
       Inl (ClientError ''404'')
   \<and> missing not_found_world job_vars = None
   \<and> deletions (snd (lambda_handler not_found_world (s3_event ''docs'' sample_key) [])) = []
   \<and> submissions (snd (lambda_handler not_found_world (s3_event ''docs'' sample_key) [])) =
       [job_request_of not_found_world ''s3://docs/in/my file v2.pdf'' 0]
   \<and> head_object forbidden_world ''docs'' (decode_key forbidden_world sample_key) =
       Inl (ClientError ''403'')
   \<and> ClientError ''403'' \<noteq> ClientError ''404''
   \<and> lambda_handler forbidden_world (s3_event ''docs'' sample_key) [] =
       (Inl (ClientError ''403''),
        [Print Log_s3_event, Head_object ''docs'' ''in/my file v2.pdf''])
   \<and> deletions (snd (lambda_handler forbidden_world (s3_event ''docs'' sample_key) [])) = []
   \<and> submissions (snd (lambda_handler forbidden_world (s3_event ''docs'' sample_key) [])) = []"
  using probe_not_found_or_failing [of "s3_event ''docs'' sample_key"
          "\<lparr>s3_bucket_name = ''docs'', s3_object_key = sample_key\<rparr>" "[]" not_found_world
          "ClientError ''404''"]
        probe_not_found_or_failing [of "s3_event ''docs'' sample_key"
          "\<lparr>s3_bucket_name = ''docs'', s3_object_key = sample_key\<rparr>" "[]" forbidden_world
          "ClientError ''403''"]
  by (simp add: s3_event_def not_found_world_configured sample_key_decoded s3_url_of_def
      not_found_world_head forbidden_world_head add_files_deletions
      add_files_configured [OF not_found_world_configured])

text \<open>
  Claim C4. For a storage-change event whose object exists, in a process that holds the six
  database variables, the handler runs \<open>add_files\<close> for the storage URI whatever
  \<open>delete_from_postgres\<close> did: when it raises \<open>e\<close>, the handler prints the error and goes
  on; when it returns (having caught and printed a database error itself, or none), the
  handler goes on as well. The answers of the database are arbitrary here, so every way for
  the deletion to fail is covered. In a process that also holds the variables \<open>add_files\<close>
  reads, the job request is therefore issued after the deletion request, and the handler
  returns what the batch service answered.
\<close>

theorem deletion_failure_keeps_job:
  assumes "RequestType ev \<noteq> Some ''Delete''" and "Records ev = Some (r # rs)"
      and "head_object w (s3_bucket_name r) (decode_key w (s3_object_key r)) = Inr ()"
      and "missing w pg_vars = None"
  shows "lambda_handler w ev [] =
     (case delete_from_postgres w (getenv w ''POSTGRES_DB_NAME'') (getenv w ''POSTGRES_USER'')
             (getenv w ''POSTGRES_PASSWORD'') (getenv w ''POSTGRES_HOST'')
             (getenv w ''POSTGRES_PORT'') (getenv w ''POSTGRES_TABLE_NAME'')
             (basename (decode_key w (s3_object_key r)))
             [Print Log_s3_event,
              Head_object (s3_bucket_name r) (decode_key w (s3_object_key r)),
              Print (Log_already_exists (decode_key w (s3_object_key r)))] of
        (Inl e, tr') \<Rightarrow>
          add_files w (s3_url_of (s3_bucket_name r) (decode_key w (s3_object_key r)))
            (tr' @ [Print (Log_error_deleting e)])
      | (Inr u, tr') \<Rightarrow>
          add_files w (s3_url_of (s3_bucket_name r) (decode_key w (s3_object_key r))) tr')
   \<and> (missing w job_vars = None \<longrightarrow>
        requests (snd (lambda_handler w ev [])) =
          [Call_delete_from_postgres
             (deletion_request_of w (basename (decode_key w (s3_object_key r)))),
           Submit_job
             (job_request_of w
                (s3_url_of (s3_bucket_name r) (decode_key w (s3_object_key r))) 0)]
      \<and> fst (lambda_handler w ev []) =
          (case submit_job w 0
                  (job_request_of w
                     (s3_url_of (s3_bucket_name r) (decode_key w (s3_object_key r))) 0) of
             Inl e \<Rightarrow> Inl e
           | Inr job_id \<Rightarrow> Inr (started_body job_id)))"
proof -
  let ?b = "s3_bucket_name r"
  let ?k = "decode_key w (s3_object_key r)"
  have h: "lambda_handler w ev = handle_s3_event w r"
    using assms(1,2) by (rule lambda_handler_s3)
  have first: "lambda_handler w ev [] =
     (case delete_from_postgres w (getenv w ''POSTGRES_DB_NAME'') (getenv w ''POSTGRES_USER'')
             (getenv w ''POSTGRES_PASSWORD'') (getenv w ''POSTGRES_HOST'')
             (getenv w ''POSTGRES_PORT'') (getenv w ''POSTGRES_TABLE_NAME'')
             (basename ?k)
             [Print Log_s3_event, Head_object ?b ?k, Print (Log_already_exists ?k)] of
        (Inl e, tr') \<Rightarrow> add_files w (s3_url_of ?b ?k) (tr' @ [Print (Log_error_deleting e)])
      | (Inr u, tr') \<Rightarrow> add_files w (s3_url_of ?b ?k) tr')"
    using handle_s3_event_exists_eq [OF assms(3,4), of "[]"] by (simp add: h)
  have second: "requests (snd (lambda_handler w ev [])) =
          [Call_delete_from_postgres (deletion_request_of w (basename ?k)),
           Submit_job (job_request_of w (s3_url_of ?b ?k) 0)]
      \<and> fst (lambda_handler w ev []) =
          (case submit_job w 0 (job_request_of w (s3_url_of ?b ?k) 0) of
             Inl e \<Rightarrow> Inl e
           | Inr job_id \<Rightarrow> Inr (started_body job_id))"
    if cfg: "missing w job_vars = None"
  proof -
    from handle_s3_event_exists [OF assms(3,4), of "[]"]
    obtain rest where run: "handle_s3_event w r [] =
        add_files w (s3_url_of ?b ?k)
          ([] @ [Print Log_s3_event, Head_object ?b ?k, Print (Log_already_exists ?k),
            Call_delete_from_postgres (deletion_request_of w (basename ?k))] @ rest)"
      and quiet: "requests rest = []"
      by blast
    show ?thesis
      using quiet quiet_submissions [OF quiet]
      by (simp add: h run add_files_configured [OF cfg] submissions_append requests_append)
  qed
  show ?thesis using first second by blast
qed

theorem deletion_failure_keeps_job_witness:
  "RequestType (s3_event ''docs'' sample_key) \<noteq> Some ''Delete''
   \<and> Records (s3_event ''docs'' sample_key) =
       Some [\<lparr>s3_bucket_name = ''docs'', s3_object_key = sample_key\<rparr>]
   \<and> head_object db_down_world ''docs'' (decode_key db_down_world sample_key) = Inr ()
   \<and> missing db_down_world pg_vars = None
   \<and> missing db_down_world job_vars = None
   \<and> fst (delete_from_postgres db_down_world ''vecs'' ''ingest'' ''pw'' ''db.local'' ''5432''
            ''elements'' ''my file v2.pdf''
            [Print Log_s3_event, Head_object ''docs'' ''in/my file v2.pdf'',
             Print (Log_already_exists ''in/my file v2.pdf'')]) =
       Inl (UnboundLocalError ''cursor'')
   \<and> requests (snd (lambda_handler db_down_world (s3_event ''docs'' sample_key) [])) =
       [Call_delete_from_postgres (deletion_request_of db_down_world ''my file v2.pdf''),
        Submit_job (job_request_of db_down_world ''s3://docs/in/my file v2.pdf'' 0)]
   \<and> fst (lambda_handler db_down_world (s3_event ''docs'' sample_key) []) =
       Inr (started_body ''job-7'')"
proof -
  let ?ev = "s3_event ''docs'' sample_key"
  have down: "pg_connect db_down_world ''vecs'' ''ingest'' ''pw'' ''db.local'' ''5432'' =
      Inl (Error ''connection refused'')"
    by (simp add: db_down_world_def)
  have a1: "RequestType ?ev \<noteq> Some ''Delete''"
    by (simp add: s3_event_def)
  have a2: "Records ?ev = Some [\<lparr>s3_bucket_name = ''docs'', s3_object_key = sample_key\<rparr>]"
    by (simp add: s3_event_def)
  note pg = job_vars_cover_pg_vars [OF db_down_world_configured]
  note job = deletion_failure_keeps_job [OF a1 a2 db_down_world_head pg,
      THEN conjunct2, THEN mp, OF db_down_world_configured]
  show ?thesis
    using job a1 a2
    by (simp add: db_down_world_configured pg sample_key_decoded
        sample_basename s3_url_of_def db_down_world_head db_down_world_submit
        delete_from_postgres_connect_raises [OF down])
qed

subsection \<open>The deletion executor\<close>

text \<open>
  Claim C8 says that \<open>delete_from_postgres\<close> always releases cursor and connection and
  never lets an exception reach its caller. The source assigns \<open>cursor\<close> only inside the
  \<open>try\<close> block and reads it in the \<open>finally\<close> block. When \<open>psycopg2.connect\<close> raises, the
  error is caught and printed, and then the \<open>finally\<close> block raises \<open>UnboundLocalError\<close>,
  which leaves the function. When \<open>connection.cursor()\<close> raises, the same happens, and
  the open connection is never closed: the trace ends without \<open>Pg_connection_close\<close>.
\<close>

theorem delete_from_postgres_leaks_and_raises:
  "delete_from_postgres db_down_world ''vecs'' ''ingest'' ''pw'' ''db.local'' ''5432''
     ''elements'' ''a.pdf'' [] =
     (Inl (UnboundLocalError ''cursor''),
      [Call_delete_from_postgres
         \<lparr>del_db_name = ''vecs'', del_user = ''ingest'', del_password = ''pw'',
          del_host = ''db.local'', del_port = ''5432'', del_table_name = ''elements'',
          del_filename = ''a.pdf''\<rparr>,
       Pg_connect ''vecs'' ''ingest'' ''pw'' ''db.local'' ''5432'',
       Print (Log_error_while_deleting (Error ''connection refused''))])
   \<and> delete_from_postgres cursor_fails_world ''vecs'' ''ingest'' ''pw'' ''db.local'' ''5432''
     ''elements'' ''a.pdf'' [] =
     (Inl (UnboundLocalError ''cursor''),
      [Call_delete_from_postgres
         \<lparr>del_db_name = ''vecs'', del_user = ''ingest'', del_password = ''pw'',
          del_host = ''db.local'', del_port = ''5432'', del_table_name = ''elements'',
          del_filename = ''a.pdf''\<rparr>,
       Pg_connect ''vecs'' ''ingest'' ''pw'' ''db.local'' ''5432'',
       Pg_cursor,
       Print (Log_error_while_deleting (Error ''out of memory''))])"
proof -
  have down: "pg_connect db_down_world ''vecs'' ''ingest'' ''pw'' ''db.local'' ''5432'' =
      Inl (Error ''connection refused'')"
    by (simp add: db_down_world_def)
  have up: "pg_connect cursor_fails_world ''vecs'' ''ingest'' ''pw'' ''db.local'' ''5432'' =
      Inr ()"
    by (simp add: cursor_fails_world_def sample_world_def)
  have cur: "pg_cursor cursor_fails_world = Inl (Error ''out of memory'')"
    by (simp add: cursor_fails_world_def)
  show ?thesis
    by (simp add: delete_from_postgres_connect_raises [OF down]
        delete_from_postgres_cursor_raises [OF up cur])
qed

subsection \<open>The decoded key\<close>

text \<open>
  Claim C2. For a storage-change event with raw key \<open>s3_object_key r\<close>, let \<open>k\<close> be the raw
  key percent-decoded first, then with every \<open>+\<close> and then every \<open>%20\<close> replaced by one
  space. The handler probes exactly once, for \<open>k\<close>; the filename of a deletion request, when
  one is issued, is the basename of \<open>k\<close>; the \<open>AWS_S3_URL\<close> of a job request, when one is
  issued, is \<open>s3://\<close>, the bucket, \<open>/\<close> and \<open>k\<close>. No \<open>+\<close> and no \<open>%20\<close> is left in \<open>k\<close>.
  This holds for every raw key, with or without such sequences.
\<close>

theorem decoded_key_used_everywhere:
  assumes "RequestType ev \<noteq> Some ''Delete''" and "Records ev = Some (r # rs)"
      and "k = replace ''%20'' '' '' (replace ''+'' '' ''
                 (unquote (utf8_codec w) (s3_object_key r)))"
  shows "probes (snd (lambda_handler w ev [])) = [(s3_bucket_name r, k)]
       \<and> (map del_filename (deletions (snd (lambda_handler w ev []))) = []
          \<or> map del_filename (deletions (snd (lambda_handler w ev []))) = [basename k])
       \<and> (map input_url (submissions (snd (lambda_handler w ev []))) = []
          \<or> map input_url (submissions (snd (lambda_handler w ev []))) =
               [Some (''s3://'' @ s3_bucket_name r @ ''/'' @ k)])
       \<and> CHR ''+'' \<notin> set k
       \<and> \<not> sublist ''%20'' k"
proof -
  have h: "lambda_handler w ev = handle_s3_event w r"
    using assms(1,2) by (rule lambda_handler_s3)
  have k: "decode_key w (s3_object_key r) = k"
    by (simp add: decode_key_def assms(3))
  have clean: "CHR ''+'' \<notin> set k \<and> \<not> sublist ''%20'' k"
    unfolding assms(3) by (rule decode_key_clean)
  from handle_s3_event_shape [of w r]
  have "probes (snd (lambda_handler w ev [])) = [(s3_bucket_name r, k)]
       \<and> (map del_filename (deletions (snd (lambda_handler w ev []))) = []
          \<or> map del_filename (deletions (snd (lambda_handler w ev []))) = [basename k])
       \<and> (map input_url (submissions (snd (lambda_handler w ev []))) = []
          \<or> map input_url (submissions (snd (lambda_handler w ev []))) =
               [Some (''s3://'' @ s3_bucket_name r @ ''/'' @ k)])"
    unfolding h k
    by (auto simp: deletion_request_of_def input_url_job_request_of s3_url_of_def)
  with clean show ?thesis by blast
qed

theorem decoded_key_used_everywhere_witness:
  "RequestType (s3_event ''docs'' sample_key) \<noteq> Some ''Delete''
   \<and> Records (s3_event ''docs'' sample_key) =
       Some [\<lparr>s3_bucket_name = ''docs'', s3_object_key = sample_key\<rparr>]
   \<and> ''in/my file v2.pdf'' =
       replace ''%20'' '' '' (replace ''+'' '' '' (unquote (utf8_codec sample_world) sample_key))
   \<and> probes (snd (lambda_handler sample_world (s3_event ''docs'' sample_key) [])) =
       [(''docs'', ''in/my file v2.pdf'')]
   \<and> map del_filename
        (deletions (snd (lambda_handler sample_world (s3_event ''docs'' sample_key) []))) =
       [''my file v2.pdf'']
   \<and> map input_url
        (submissions (snd (lambda_handler sample_world (s3_event ''docs'' sample_key) []))) =
       [Some ''s3://docs/in/my file v2.pdf'']
   \<and> CHR ''+'' \<notin> set ''in/my file v2.pdf''
   \<and> \<not> sublist ''%20'' ''in/my file v2.pdf''"
proof -
  let ?ev = "s3_event ''docs'' sample_key"
  let ?tr = "snd (lambda_handler sample_world ?ev [])"
  have a1: "RequestType ?ev \<noteq> Some ''Delete''"
    by (simp add: s3_event_def)
  have a2: "Records ?ev = Some [\<lparr>s3_bucket_name = ''docs'', s3_object_key = sample_key\<rparr>]"
    by (simp add: s3_event_def)
  have a3: "''in/my file v2.pdf'' =
       replace ''%20'' '' '' (replace ''+'' '' '' (unquote (utf8_codec sample_world)
         (s3_object_key \<lparr>s3_bucket_name = ''docs'', s3_object_key = sample_key\<rparr>)))"
    using sample_key_decoded [of sample_world] by (simp add: decode_key_def)
  note inst = decoded_key_used_everywhere [OF a1 a2 a3]
  have d: "deletions ?tr = [deletion_request_of sample_world ''my file v2.pdf'']"
    using deletions_requests [of ?tr] by (simp add: sample_run)
  have s: "submissions ?tr =
      [job_request_of sample_world ''s3://docs/in/my file v2.pdf'' 0]"
    using submissions_requests [of ?tr] by (simp add: sample_run)
  show ?thesis
    using inst a1 a2 a3
    by (simp add: d s deletion_request_of_def input_url_job_request_of)
qed

text \<open>
  Claim C3 expects, for bucket \<open>docs\<close> and raw key \<open>a%2Bb.pdf\<close>, the filename \<open>a+b.pdf\<close> and
  the URI \<open>s3://docs/a+b.pdf\<close>. The handler percent-decodes first, which yields \<open>a+b.pdf\<close>,
  and then replaces the \<open>+\<close> by a space: even in a bucket that holds every key, the filename
  it deletes is \<open>a b.pdf\<close> and the URI it submits is \<open>s3://docs/a b.pdf\<close>.
\<close>

theorem docs_scenario_counterexample:
  "head_object sample_world ''docs'' ''a+b.pdf'' = Inr ()
   \<and> head_object sample_world ''docs'' ''a b.pdf'' = Inr ()
   \<and> missing sample_world job_vars = None
   \<and> map del_filename
        (deletions (snd (lambda_handler sample_world (s3_event ''docs'' ''a%2Bb.pdf'') []))) =
       [''a b.pdf'']
   \<and> map input_url
        (submissions (snd (lambda_handler sample_world (s3_event ''docs'' ''a%2Bb.pdf'') []))) =
       [Some ''s3://docs/a b.pdf'']
   \<and> \<not> (map del_filename
        (deletions (snd (lambda_handler sample_world (s3_event ''docs'' ''a%2Bb.pdf'') []))) =
          [''a+b.pdf'']
        \<and> map input_url
        (submissions (snd (lambda_handler sample_world (s3_event ''docs'' ''a%2Bb.pdf'') []))) =
          [Some ''s3://docs/a+b.pdf''])"
proof -
  let ?tr = "snd (lambda_handler sample_world (s3_event ''docs'' docs_key) [])"
  note run = docs_run [OF sample_world_head sample_world_configured]
  have d: "deletions ?tr = [deletion_request_of sample_world ''a b.pdf'']"
    using deletions_requests [of ?tr] by (simp add: run)
  have s: "submissions ?tr = [job_request_of sample_world ''s3://docs/a b.pdf'' 0]"
    using submissions_requests [of ?tr] by (simp add: run)
  show ?thesis
    unfolding docs_key_def [symmetric]
    by (simp add: d s sample_world_head sample_world_configured deletion_request_of_def
        input_url_job_request_of)
qed

text \<open>
  Claim C3 as amended: for bucket \<open>docs\<close> and raw key \<open>a%2Bb.pdf\<close>, the handler probes for
  \<open>a b.pdf\<close>; when that key exists and the process holds the variables \<open>add_files\<close> reads,
  it issues a deletion request with filename \<open>a b.pdf\<close> against the configured table and
  then submits a job with input URI \<open>s3://docs/a b.pdf\<close>.
\<close>

theorem docs_scenario_amended:
  assumes "head_object w ''docs'' ''a b.pdf'' = Inr ()" and "missing w job_vars = None"
  shows "probes (snd (lambda_handler w (s3_event ''docs'' ''a%2Bb.pdf'') [])) =
           [(''docs'', ''a b.pdf'')]
       \<and> requests (snd (lambda_handler w (s3_event ''docs'' ''a%2Bb.pdf'') [])) =
           [Call_delete_from_postgres (deletion_request_of w ''a b.pdf''),
            Submit_job (job_request_of w ''s3://docs/a b.pdf'' 0)]
       \<and> del_filename (deletion_request_of w ''a b.pdf'') = ''a b.pdf''
       \<and> del_table_name (deletion_request_of w ''a b.pdf'') = getenv w ''POSTGRES_TABLE_NAME''
       \<and> input_url (job_request_of w ''s3://docs/a b.pdf'' 0) = Some ''s3://docs/a b.pdf''"
proof -
  have "probes (snd (lambda_handler w (s3_event ''docs'' docs_key) [])) =
      [(''docs'', ''a b.pdf'')]"
    using handle_s3_event_shape [of w "\<lparr>s3_bucket_name = ''docs'', s3_object_key = docs_key\<rparr>"]
    by (simp add: lambda_handler_def s3_event_def docs_key_decoded)
  then show ?thesis
    unfolding docs_key_def [symmetric]
    by (simp add: docs_run [OF assms] deletion_request_of_def input_url_job_request_of)
qed

theorem docs_scenario_amended_witness:
  "head_object sample_world ''docs'' ''a b.pdf'' = Inr ()
   \<and> missing sample_world job_vars = None
   \<and> probes (snd (lambda_handler sample_world (s3_event ''docs'' ''a%2Bb.pdf'') [])) =
           [(''docs'', ''a b.pdf'')]
   \<and> requests (snd (lambda_handler sample_world (s3_event ''docs'' ''a%2Bb.pdf'') [])) =
           [Call_delete_from_postgres (deletion_request_of sample_world ''a b.pdf''),
            Submit_job (job_request_of sample_world ''s3://docs/a b.pdf'' 0)]
   \<and> del_filename (deletion_request_of sample_world ''a b.pdf'') = ''a b.pdf''
   \<and> del_table_name (deletion_request_of sample_world ''a b.pdf'') = ''elements''
   \<and> input_url (job_request_of sample_world ''s3://docs/a b.pdf'' 0) =
       Some ''s3://docs/a b.pdf''"
proof -
  have t: "getenv sample_world ''POSTGRES_TABLE_NAME'' = ''elements''"
    by (simp add: getenv_def sample_world_def sample_environ_def)
  show ?thesis
    using docs_scenario_amended [OF sample_world_head sample_world_configured]
    by (simp add: sample_world_head sample_world_configured t)
qed

subsection \<open>Bulk listing\<close>

text \<open>
  Claim C5. Take an event that is no teardown and has no records, in a process that holds
  \<open>S3_BUCKET_NAME\<close>, and let the listing answer. When the answer has no \<open>Contents\<close>, the
  handler returns the 200 response and has submitted nothing. When it has, the URLs of the
  jobs submitted are, in order, an initial part of the list holding \<open>s3://bucket/Key\<close> once
  for every listed object of nonzero size and nothing for an object of size 0; they are the
  whole list whenever the handler returns its response, and it does return it when the
  process holds the variables \<open>add_files\<close> reads and the batch service accepts every job.
\<close>

theorem bulk_listing_jobs:
  assumes "RequestType ev \<noteq> Some ''Delete''"
      and "Records ev = None \<or> Records ev = Some []"
      and "environ w ''S3_BUCKET_NAME'' = Some bucket"
      and "list_objects_v2 w bucket (getenv w ''S3_NOTIFICATION_PREFIX'') = Inr listing"
  shows "(listing = None \<longrightarrow>
            fst (lambda_handler w ev []) =
              Inr \<lparr>statusCode = 200, body = json_dumps ''Processed existing items.''\<rparr>
          \<and> submissions (snd (lambda_handler w ev [])) = [])
       \<and> (listing = Some contents \<longrightarrow>
            prefix (map input_url (submissions (snd (lambda_handler w ev []))))
              (map (\<lambda>i. Some (s3_url_of bucket (Key i))) (filter (\<lambda>i. Size i \<noteq> 0) contents))
          \<and> (fst (lambda_handler w ev []) =
                Inr \<lparr>statusCode = 200, body = json_dumps ''Processed existing items.''\<rparr> \<longrightarrow>
              map input_url (submissions (snd (lambda_handler w ev []))) =
                map (\<lambda>i. Some (s3_url_of bucket (Key i))) (filter (\<lambda>i. Size i \<noteq> 0) contents))
          \<and> (missing w job_vars = None \<and> (\<forall>n q. \<exists>j. submit_job w n q = Inr j) \<longrightarrow>
              fst (lambda_handler w ev []) =
                Inr \<lparr>statusCode = 200, body = json_dumps ''Processed existing items.''\<rparr>
              \<and> map input_url (submissions (snd (lambda_handler w ev []))) =
                map (\<lambda>i. Some (s3_url_of bucket (Key i)))
                  (filter (\<lambda>i. Size i \<noteq> 0) contents)))"
proof -
  let ?p = "getenv w ''S3_NOTIFICATION_PREFIX''"
  let ?ok = "Inr \<lparr>statusCode = 200, body = json_dumps ''Processed existing items.''\<rparr>
      :: exn + response"
  let ?urls = "map (\<lambda>i. Some (s3_url_of bucket (Key i))) (filter (\<lambda>i. Size i \<noteq> 0) contents)"
  have h: "lambda_handler w ev = handle_custom_resource w"
    using assms(1,2) by (rule lambda_handler_bulk)
  note unf = handle_custom_resource_unfold [OF assms(3,4), of "[]"]
  have none: "fst (lambda_handler w ev []) = ?ok \<and> submissions (snd (lambda_handler w ev [])) = []"
    if "listing = None"
    using unf that by (simp add: h)
  have some: "prefix (map input_url (submissions (snd (lambda_handler w ev [])))) ?urls
      \<and> (fst (lambda_handler w ev []) = ?ok \<longrightarrow>
            map input_url (submissions (snd (lambda_handler w ev []))) = ?urls)
      \<and> (missing w job_vars = None \<and> (\<forall>n q. \<exists>j. submit_job w n q = Inr j) \<longrightarrow>
            fst (lambda_handler w ev []) = ?ok
          \<and> map input_url (submissions (snd (lambda_handler w ev []))) = ?urls)"
    if l: "listing = Some contents"
  proof -
    let ?tr0 = "[Print Log_custom_resource, List_objects_v2 bucket ?p,
        Print (Log_objects contents)]"
    obtain res tr' where pc: "process_contents w bucket contents ?tr0 = (res, tr')"
      by (cases "process_contents w bucket contents ?tr0")
    have run: "lambda_handler w ev [] =
        (case res of Inl e \<Rightarrow> Inl e | Inr u \<Rightarrow> ?ok, tr')"
      using unf l pc by (simp add: h split: sum.splits)
    have pre: "prefix (map input_url (submissions tr')) ?urls"
      using process_contents_prefix [of bucket contents w ?tr0] pc by simp
    have suc: "map input_url (submissions tr') = ?urls" if "res = Inr x" for x
      using process_contents_success [of w bucket contents ?tr0 x] pc that by simp
    have acc: "res = Inr ()"
      if "missing w job_vars = None" and "\<forall>n q. \<exists>j. submit_job w n q = Inr j"
      using process_contents_accepts [of w bucket contents ?tr0] pc that by simp
    have c1: "prefix (map input_url (submissions (snd (lambda_handler w ev [])))) ?urls"
      using pre by (simp add: run)
    have c2: "map input_url (submissions (snd (lambda_handler w ev []))) = ?urls"
      if "fst (lambda_handler w ev []) = ?ok"
    proof -
      from that obtain x where "res = Inr x"
        by (cases res) (simp_all add: run)
      from suc [OF this] show ?thesis by (simp add: run)
    qed
    have c3: "fst (lambda_handler w ev []) = ?ok"
      if "missing w job_vars = None \<and> (\<forall>n q. \<exists>j. submit_job w n q = Inr j)"
      using acc that by (simp add: run)
    show ?thesis
      using c1 c2 c3 by blast
  qed
  show ?thesis using none some by blast
qed

theorem bulk_listing_jobs_witness:
  "RequestType bulk_event \<noteq> Some ''Delete''
   \<and> Records bulk_event = None
   \<and> environ sample_world ''S3_BUCKET_NAME'' = Some ''docs''
   \<and> list_objects_v2 sample_world ''docs'' (getenv sample_world ''S3_NOTIFICATION_PREFIX'') =
       Inr (Some [\<lparr>Key = ''in/x.pdf'', Size = 10\<rparr>, \<lparr>Key = ''in/'', Size = 0\<rparr>])
   \<and> missing sample_world job_vars = None
   \<and> (\<forall>n q. \<exists>j. submit_job sample_world n q = Inr j)
   \<and> fst (lambda_handler sample_world bulk_event []) =
       Inr \<lparr>statusCode = 200, body = json_dumps ''Processed existing items.''\<rparr>
   \<and> map input_url (submissions (snd (lambda_handler sample_world bulk_event []))) =
       [Some ''s3://docs/in/x.pdf'']
   \<and> environ empty_bucket_world ''S3_BUCKET_NAME'' = Some ''docs''
   \<and> list_objects_v2 empty_bucket_world ''docs''
        (getenv empty_bucket_world ''S3_NOTIFICATION_PREFIX'') = Inr None
   \<and> fst (lambda_handler empty_bucket_world bulk_event []) =
       Inr \<lparr>statusCode = 200, body = json_dumps ''Processed existing items.''\<rparr>
   \<and> submissions (snd (lambda_handler empty_bucket_world bulk_event [])) = []"
proof -
  have a1: "RequestType bulk_event \<noteq> Some ''Delete''"
    by (simp add: bulk_event_def)
  have a2: "Records bulk_event = None \<or> Records bulk_event = Some []"
    by (simp add: bulk_event_def)
  have acc: "\<forall>n q. \<exists>j. submit_job sample_world n q = Inr j"
    by (simp add: sample_world_submit)
  note full = bulk_listing_jobs [OF a1 a2 sample_world_bucket sample_world_listing,
      of "[\<lparr>Key = ''in/x.pdf'', Size = 10\<rparr>, \<lparr>Key = ''in/'', Size = 0\<rparr>]",
      THEN conjunct2, THEN mp, OF refl, THEN conjunct2, THEN conjunct2, THEN mp,
      OF conjI [OF sample_world_configured acc]]
  note empty = bulk_listing_jobs [OF a1 a2 empty_bucket_world_bucket empty_bucket_world_listing,
      THEN conjunct1, THEN mp, OF refl]
  show ?thesis
    using full empty a1
    by (simp add: bulk_event_def sample_world_bucket sample_world_listing
        sample_world_configured sample_world_submit empty_bucket_world_bucket
        empty_bucket_world_listing s3_url_of_def)
qed

subsection \<open>Failures of job assembly and submission\<close>

text \<open>
  Claim C9. Nothing in the handler catches what \<open>add_files\<close> raises. First, whenever the
  batch service answered one of the submissions of an invocation with an exception \<open>e\<close>,
  the invocation ends with \<open>e\<close> and returns no response. Second, a storage-change event
  reaches \<open>add_files\<close> when the probe found the object and the six database variables are
  set, or when the probe answered 404; if then \<open>v\<close> is the first variable \<open>add_files\<close>
  does not find, the invocation ends with \<open>KeyError v\<close> and has submitted nothing. Third,
  a bulk event reaches \<open>add_files\<close> when the listing holds an object of nonzero size; if
  then \<open>v\<close> is the first missing variable, the invocation ends with \<open>KeyError v\<close> and has
  submitted nothing.
\<close>

theorem job_failures_propagate:
  "(i < length (submissions (snd (lambda_handler w ev [])))
    \<and> submit_job w i (submissions (snd (lambda_handler w ev [])) ! i) = Inl e \<longrightarrow>
      fst (lambda_handler w ev []) = Inl e)
   \<and> (RequestType ev \<noteq> Some ''Delete'' \<and> Records ev = Some (r # rs)
      \<and> (head_object w (s3_bucket_name r) (decode_key w (s3_object_key r)) = Inr ()
           \<and> missing w pg_vars = None
         \<or> head_object w (s3_bucket_name r) (decode_key w (s3_object_key r)) =
             Inl (ClientError ''404''))
      \<and> missing w job_vars = Some v \<longrightarrow>
        fst (lambda_handler w ev []) = Inl (KeyError v)
      \<and> submissions (snd (lambda_handler w ev [])) = [])
   \<and> (RequestType ev \<noteq> Some ''Delete'' \<and> (Records ev = None \<or> Records ev = Some [])
      \<and> environ w ''S3_BUCKET_NAME'' = Some bucket
      \<and> list_objects_v2 w bucket (getenv w ''S3_NOTIFICATION_PREFIX'') = Inr (Some contents)
      \<and> filter (\<lambda>i. Size i \<noteq> 0) contents \<noteq> []
      \<and> missing w job_vars = Some v \<longrightarrow>
        fst (lambda_handler w ev []) = Inl (KeyError v)
      \<and> submissions (snd (lambda_handler w ev [])) = [])"
proof (intro conjI impI)
  assume "i < length (submissions (snd (lambda_handler w ev [])))
    \<and> submit_job w i (submissions (snd (lambda_handler w ev [])) ! i) = Inl e"
  then show "fst (lambda_handler w ev []) = Inl e"
    using lambda_handler_answer by blast
next
  let ?b = "s3_bucket_name r"
  let ?k = "decode_key w (s3_object_key r)"
  assume a: "RequestType ev \<noteq> Some ''Delete'' \<and> Records ev = Some (r # rs)
      \<and> (head_object w ?b ?k = Inr () \<and> missing w pg_vars = None
         \<or> head_object w ?b ?k = Inl (ClientError ''404''))
      \<and> missing w job_vars = Some v"
  then have h: "lambda_handler w ev = handle_s3_event w r"
    by (simp add: lambda_handler_s3)
  from a have m: "missing w job_vars = Some v" by simp
  from a consider
    (found) "head_object w ?b ?k = Inr ()" "missing w pg_vars = None"
    | (absent) "head_object w ?b ?k = Inl (ClientError ''404'')"
    by auto
  then have "fst (lambda_handler w ev []) = Inl (KeyError v)
      \<and> submissions (snd (lambda_handler w ev [])) = []"
  proof cases
    case found
    from handle_s3_event_exists [OF found, of "[]"]
    obtain rest where run: "handle_s3_event w r [] =
        add_files w (s3_url_of ?b ?k)
          ([] @ [Print Log_s3_event, Head_object ?b ?k, Print (Log_already_exists ?k),
            Call_delete_from_postgres (deletion_request_of w (basename ?k))] @ rest)"
      and quiet: "requests rest = []"
      by blast
    show ?thesis
      using quiet_submissions [OF quiet]
      by (simp add: h run add_files_missing [OF m] submissions_append)
  next
    case absent
    show ?thesis
      by (simp add: h handle_s3_event_not_found [OF absent] add_files_missing [OF m])
  qed
  then show "fst (lambda_handler w ev []) = Inl (KeyError v)"
    and "submissions (snd (lambda_handler w ev [])) = []"
    by simp_all
next
  assume a: "RequestType ev \<noteq> Some ''Delete'' \<and> (Records ev = None \<or> Records ev = Some [])
      \<and> environ w ''S3_BUCKET_NAME'' = Some bucket
      \<and> list_objects_v2 w bucket (getenv w ''S3_NOTIFICATION_PREFIX'') = Inr (Some contents)
      \<and> filter (\<lambda>i. Size i \<noteq> 0) contents \<noteq> []
      \<and> missing w job_vars = Some v"
  then have h: "lambda_handler w ev = handle_custom_resource w"
    by (simp add: lambda_handler_bulk)
  from a have env: "environ w ''S3_BUCKET_NAME'' = Some bucket"
    and lst: "list_objects_v2 w bucket (getenv w ''S3_NOTIFICATION_PREFIX'') =
        Inr (Some contents)"
    and nz: "filter (\<lambda>i. Size i \<noteq> 0) contents \<noteq> []"
    and m: "missing w job_vars = Some v"
    by simp_all
  let ?tr0 = "[Print Log_custom_resource,
      List_objects_v2 bucket (getenv w ''S3_NOTIFICATION_PREFIX''),
      Print (Log_objects contents)]"
  obtain res tr' where pc: "process_contents w bucket contents ?tr0 = (res, tr')"
    by (cases "process_contents w bucket contents ?tr0")
  from process_contents_missing [OF m nz, of bucket ?tr0] pc
  have "res = Inl (KeyError v)" and "submissions tr' = []"
    by simp_all
  then have "fst (lambda_handler w ev []) = Inl (KeyError v)
      \<and> submissions (snd (lambda_handler w ev [])) = []"
    using handle_custom_resource_unfold [OF env lst, of "[]"] pc by (simp add: h)
  then show "fst (lambda_handler w ev []) = Inl (KeyError v)"
    and "submissions (snd (lambda_handler w ev [])) = []"
    by simp_all
qed

theorem job_failures_propagate_witness:
  "0 < length (submissions (snd (lambda_handler batch_down_world (s3_event ''docs'' sample_key) [])))
   \<and> submit_job batch_down_world 0
        (submissions (snd (lambda_handler batch_down_world (s3_event ''docs'' sample_key) [])) ! 0)
       = Inl (Error ''batch unavailable'')
   \<and> fst (lambda_handler batch_down_world (s3_event ''docs'' sample_key) []) =
       Inl (Error ''batch unavailable'')
   \<and> RequestType (s3_event ''docs'' sample_key) \<noteq> Some ''Delete''
   \<and> Records (s3_event ''docs'' sample_key) =
       Some [\<lparr>s3_bucket_name = ''docs'', s3_object_key = sample_key\<rparr>]
   \<and> head_object unconfigured_world ''docs'' (decode_key unconfigured_world sample_key) = Inr ()
   \<and> missing unconfigured_world pg_vars = None
   \<and> missing unconfigured_world job_vars = Some ''JOB_QUEUE''
   \<and> fst (lambda_handler unconfigured_world (s3_event ''docs'' sample_key) []) =
       Inl (KeyError ''JOB_QUEUE'')
   \<and> submissions (snd (lambda_handler unconfigured_world (s3_event ''docs'' sample_key) [])) = []
   \<and> RequestType bulk_event \<noteq> Some ''Delete''
   \<and> Records bulk_event = None
   \<and> environ unconfigured_world ''S3_BUCKET_NAME'' = Some ''docs''
   \<and> list_objects_v2 unconfigured_world ''docs''
        (getenv unconfigured_world ''S3_NOTIFICATION_PREFIX'') =
       Inr (Some [\<lparr>Key = ''in/x.pdf'', Size = 10\<rparr>, \<lparr>Key = ''in/'', Size = 0\<rparr>])
   \<and> filter (\<lambda>i. Size i \<noteq> 0) [\<lparr>Key = ''in/x.pdf'', Size = 10\<rparr>, \<lparr>Key = ''in/'', Size = 0\<rparr>]
       = [\<lparr>Key = ''in/x.pdf'', Size = 10\<rparr>]
   \<and> fst (lambda_handler unconfigured_world bulk_event []) = Inl (KeyError ''JOB_QUEUE'')
   \<and> submissions (snd (lambda_handler unconfigured_world bulk_event [])) = []"
proof -
  let ?ev = "s3_event ''docs'' sample_key"
  let ?r = "\<lparr>s3_bucket_name = ''docs'', s3_object_key = sample_key\<rparr>"
  let ?tr = "snd (lambda_handler batch_down_world ?ev [])"
  let ?contents = "[\<lparr>Key = ''in/x.pdf'', Size = 10\<rparr>, \<lparr>Key = ''in/'', Size = 0\<rparr>]"
  have a1: "RequestType ?ev \<noteq> Some ''Delete''"
    by (simp add: s3_event_def)
  have a2: "Records ?ev = Some [?r]"
    by (simp add: s3_event_def)
  have b1: "RequestType bulk_event \<noteq> Some ''Delete''"
    by (simp add: bulk_event_def)
  have b2: "Records bulk_event = None"
    by (simp add: bulk_event_def)
  have nz: "filter (\<lambda>i. Size i \<noteq> 0) ?contents = [\<lparr>Key = ''in/x.pdf'', Size = 10\<rparr>]"
    by simp
  have "requests ?tr =
      [Call_delete_from_postgres (deletion_request_of batch_down_world ''my file v2.pdf''),
       Submit_job (job_request_of batch_down_world ''s3://docs/in/my file v2.pdf'' 0)]"
    using handle_s3_event_exists_requests [of batch_down_world ?r]
    by (simp add: lambda_handler_def s3_event_def batch_down_world_head
        batch_down_world_configured sample_key_decoded sample_basename s3_url_of_def)
  then have subs: "submissions ?tr =
      [job_request_of batch_down_world ''s3://docs/in/my file v2.pdf'' 0]"
    using submissions_requests [of ?tr] by simp
  have c1: "fst (lambda_handler batch_down_world ?ev []) = Inl (Error ''batch unavailable'')"
    using job_failures_propagate [where w = batch_down_world and ev = ?ev and i = 0
        and e = "Error ''batch unavailable''", THEN conjunct1]
    by (simp add: subs batch_down_world_submit)
  have c2: "fst (lambda_handler unconfigured_world ?ev []) = Inl (KeyError ''JOB_QUEUE'')
      \<and> submissions (snd (lambda_handler unconfigured_world ?ev [])) = []"
    using job_failures_propagate [where w = unconfigured_world and ev = ?ev and r = ?r
        and rs = "[]" and v = "''JOB_QUEUE''", THEN conjunct2, THEN conjunct1]
    by (simp add: a1 a2 unconfigured_world_head unconfigured_world_pg unconfigured_world_job)
  have c3: "fst (lambda_handler unconfigured_world bulk_event []) = Inl (KeyError ''JOB_QUEUE'')
      \<and> submissions (snd (lambda_handler unconfigured_world bulk_event [])) = []"
    using job_failures_propagate [where w = unconfigured_world and ev = bulk_event
        and bucket = "''docs''" and contents = ?contents and v = "''JOB_QUEUE''",
        THEN conjunct2, THEN conjunct2]
    by (simp add: b1 b2 unconfigured_world_bucket unconfigured_world_listing
        unconfigured_world_job)
  show ?thesis
    using c1 c2 c3 a1 a2 b1 b2 nz
    by (simp add: subs batch_down_world_submit unconfigured_world_head unconfigured_world_pg
        unconfigured_world_job unconfigured_world_bucket unconfigured_world_listing)
qed

subsection \<open>Response bodies\<close>

text \<open>
  Claim C10. Take an event that is no teardown and an invocation that returns a response.
  In bulk-listing mode the response is always status 200 with the JSON text of
  \<open>Processed existing items.\<close>: what \<open>add_files\<close> returned for each object, job identifier
  included, has no part in it. On the single-event path the response is status 200 with the
  JSON text of \<open>Started Batch Job: \<close> followed by the identifier the batch service assigned
  to the one job; when that identifier consists of characters \<open>json.dumps\<close> copies
  unchanged, it occurs literally in the body.
\<close>

theorem response_bodies:
  assumes "RequestType ev \<noteq> Some ''Delete''"
      and "fst (lambda_handler w ev []) = Inr resp"
  shows "(Records ev = None \<or> Records ev = Some [] \<longrightarrow>
            resp = \<lparr>statusCode = 200, body = json_dumps ''Processed existing items.''\<rparr>)
       \<and> (Records ev = Some (r # rs) \<longrightarrow>
            (\<exists>job_id.
               submit_job w 0
                 (job_request_of w
                    (s3_url_of (s3_bucket_name r) (decode_key w (s3_object_key r))) 0) =
                 Inr job_id
             \<and> resp = \<lparr>statusCode = 200,
                        body = json_dumps (''Started Batch Job: '' @ job_id)\<rparr>
             \<and> (list_all json_plain job_id \<longrightarrow> sublist job_id (body resp))))"
proof (intro conjI impI)
  assume "Records ev = None \<or> Records ev = Some []"
  with assms(1) have "lambda_handler w ev = handle_custom_resource w"
    by (rule lambda_handler_bulk)
  with assms(2) show "resp = \<lparr>statusCode = 200, body = json_dumps ''Processed existing items.''\<rparr>"
    using handle_custom_resource_response [of w "[]" resp] by simp
next
  assume "Records ev = Some (r # rs)"
  with assms(1) have "lambda_handler w ev = handle_s3_event w r"
    by (rule lambda_handler_s3)
  with assms(2) have "fst (handle_s3_event w r []) = Inr resp" by simp
  from handle_s3_event_response [OF this] obtain job_id where
    j: "submit_job w 0
        (job_request_of w (s3_url_of (s3_bucket_name r) (decode_key w (s3_object_key r))) 0) =
        Inr job_id"
    and r: "resp = started_body job_id"
    by blast
  have "list_all json_plain job_id \<longrightarrow> sublist job_id (body resp)"
    using started_body_contains [of job_id] r by simp
  with j r show "\<exists>job_id.
      submit_job w 0
        (job_request_of w (s3_url_of (s3_bucket_name r) (decode_key w (s3_object_key r))) 0) =
        Inr job_id
    \<and> resp = \<lparr>statusCode = 200, body = json_dumps (''Started Batch Job: '' @ job_id)\<rparr>
    \<and> (list_all json_plain job_id \<longrightarrow> sublist job_id (body resp))"
    by (auto simp: started_body_def)
qed

theorem response_bodies_witness:
  "RequestType bulk_event \<noteq> Some ''Delete''
   \<and> Records bulk_event = None
   \<and> fst (lambda_handler sample_world bulk_event []) =
       Inr \<lparr>statusCode = 200, body = CHR 0x22 # ''Processed existing items.'' @ [CHR 0x22]\<rparr>
   \<and> RequestType (s3_event ''docs'' sample_key) \<noteq> Some ''Delete''
   \<and> Records (s3_event ''docs'' sample_key) =
       Some [\<lparr>s3_bucket_name = ''docs'', s3_object_key = sample_key\<rparr>]
   \<and> fst (lambda_handler sample_world (s3_event ''docs'' sample_key) []) =
       Inr (started_body ''job-7'')
   \<and> submit_job sample_world 0
        (job_request_of sample_world ''s3://docs/in/my file v2.pdf'' 0) = Inr ''job-7''
   \<and> list_all json_plain ''job-7''
   \<and> sublist ''job-7'' (body (started_body ''job-7''))"
proof -
  let ?ev = "s3_event ''docs'' sample_key"
  let ?r = "\<lparr>s3_bucket_name = ''docs'', s3_object_key = sample_key\<rparr>"
  have a1: "RequestType ?ev \<noteq> Some ''Delete''"
    by (simp add: s3_event_def)
  have a2: "Records ?ev = Some [?r]"
    by (simp add: s3_event_def)
  have b1: "RequestType bulk_event \<noteq> Some ''Delete''"
    by (simp add: bulk_event_def)
  have b2: "Records bulk_event = None"
    by (simp add: bulk_event_def)
  from response_bodies [OF a1 sample_result, of ?r "[]", THEN conjunct2, THEN mp, OF a2]
  obtain job_id where
    j: "submit_job sample_world 0
          (job_request_of sample_world
             (s3_url_of (s3_bucket_name ?r) (decode_key sample_world (s3_object_key ?r))) 0) =
          Inr job_id"
    and s: "list_all json_plain job_id \<longrightarrow> sublist job_id (body (started_body ''job-7''))"
    by blast
  have id: "job_id = ''job-7''"
    using j by (simp add: sample_world_submit)
  have c1: "sublist ''job-7'' (body (started_body ''job-7''))"
    using s job_7_plain unfolding id by (rule mp)
  have c2: "\<lparr>statusCode = 200, body = json_dumps ''Processed existing items.''\<rparr> =
      \<lparr>statusCode = 200, body = json_dumps ''Processed existing items.''\<rparr>"
    using response_bodies [OF b1 sample_bulk_result, THEN conjunct1] b2 by simp
  show ?thesis
    using c1 c2 a1 a2 b1 b2 sample_result sample_bulk_result job_7_plain
    by (simp add: sample_world_submit processed_body_text)
qed

end
